theory Spec2Isabelle
  imports Main "HOL-Library.Word" "HOL-Library.Sublist"
begin

section \<open>Values, exceptions and the library boundary\<close>

text \<open>
  The secure storage engine of the BMS application (\<^verbatim>\<open>src/services/secure_database.py\<close>,
  \<^verbatim>\<open>src/utils/compression.py\<close>, \<^verbatim>\<open>src/utils/encryption.py\<close>) is embedded as pure functions.
  A Python \<^verbatim>\<open>str\<close> is a \<open>string\<close>, a Python \<^verbatim>\<open>bytes\<close> is a list of 8-bit words, a
  raised exception is the \<open>Inl\<close> of a sum, and the attributes of the manager object are a
  record that is passed in and returned.
\<close>

type_synonym bytes = "8 word list"

text \<open>
  The values that reach the storage engine: what \<^verbatim>\<open>json.loads\<close> can return, and
  \<^verbatim>\<open>None\<close>. A \<^verbatim>\<open>dict\<close> keeps its insertion order, so it is an association list.
\<close>

datatype pyval =
    PNone
  | PBool bool
  | PInt int
  | PStr string
  | PList "pyval list"
  | PDict "(string \<times> pyval) list"

text \<open>
  The exceptions the code distinguishes. \<^verbatim>\<open>OperationalError\<close> carries its message, since
  the retry loop looks into \<^verbatim>\<open>str(e)\<close>; the other messages are never inspected.
\<close>

datatype exn =
    ValueError
  | TypeError
  | JSONDecodeError
  | UnicodeDecodeError
  | BinasciiError
  | InvalidToken
  | LibraryError
  | OperationalError string
  | KeyError
  | FileNotFoundError
  | RuntimeError

datatype compression_type = GZIP | BZIP2 | LZMA | ZLIB | NONE

record datetime =
  year :: nat
  month :: nat
  day :: nat
  hour :: nat
  minute :: nat
  second :: nat
  microsecond :: nat

text \<open>
  The functions of the Python standard library and of the \<^verbatim>\<open>cryptography\<close> package that
  the engine calls are not part of the repository. They are the fields of one record, and
  every function of the model takes that record as its first argument. A function that can
  raise returns a sum; \<open>LibraryError\<close> stands for the exceptions of the compression
  modules. \<open>fernet_encrypt\<close> and \<open>fernet_decrypt\<close> are the two methods of the manager's
  one \<^verbatim>\<open>Fernet\<close> cipher object (the key is fixed when the manager is built). A token and a
  gzip stream also depend on the clock and on random bytes; the record holds what the
  library returns during the call at hand, and no statement below compares the results of
  two encryptions. \<open>string\<close> has 256 characters; every conversion between text and bytes
  goes through \<open>utf8_encode\<close> and \<open>utf8_decode\<close>, so nothing depends on the range of the
  characters.
\<close>

record pylib =
  json_dumps :: "pyval \<Rightarrow> string"
  json_loads :: "string \<Rightarrow> exn + pyval"
  str_builtin :: "pyval \<Rightarrow> string"
  utf8_encode :: "string \<Rightarrow> bytes"
  utf8_decode :: "bytes \<Rightarrow> exn + string"
  b64encode :: "bytes \<Rightarrow> bytes"
  b64decode :: "bytes \<Rightarrow> exn + bytes"
  urlsafe_b64encode :: "bytes \<Rightarrow> bytes"
  urlsafe_b64decode :: "bytes \<Rightarrow> exn + bytes"
  fernet_encrypt :: "bytes \<Rightarrow> bytes"
  fernet_decrypt :: "bytes \<Rightarrow> exn + bytes"
  gzip_compress :: "bytes \<Rightarrow> int \<Rightarrow> exn + bytes"
  bz2_compress :: "bytes \<Rightarrow> int \<Rightarrow> exn + bytes"
  lzma_compress :: "bytes \<Rightarrow> int \<Rightarrow> exn + bytes"
  zlib_compress :: "bytes \<Rightarrow> int \<Rightarrow> exn + bytes"
  gzip_decompress :: "bytes \<Rightarrow> exn + bytes"
  bz2_decompress :: "bytes \<Rightarrow> exn + bytes"
  lzma_decompress :: "bytes \<Rightarrow> exn + bytes"
  zlib_decompress :: "bytes \<Rightarrow> exn + bytes"
  sha256_hexdigest :: "bytes \<Rightarrow> string"
  json_dumps_sorted :: "pyval \<Rightarrow> string"
  strftime :: "datetime \<Rightarrow> string \<Rightarrow> string"
  isoformat :: "datetime \<Rightarrow> string"

text \<open>\<^verbatim>\<open>isinstance(data, (dict, list))\<close>, \<^verbatim>\<open>str(data)\<close> and the truth value of an object.\<close>

fun is_dict_or_list :: "pyval \<Rightarrow> bool" where
  "is_dict_or_list (PDict _) = True"
| "is_dict_or_list (PList _) = True"
| "is_dict_or_list _ = False"

fun py_str :: "pylib \<Rightarrow> pyval \<Rightarrow> string" where
  "py_str L (PStr s) = s"
| "py_str L v = str_builtin L v"

fun truthy :: "pyval \<Rightarrow> bool" where
  "truthy PNone = False"
| "truthy (PBool b) = b"
| "truthy (PInt n) = (n \<noteq> 0)"
| "truthy (PStr s) = (s \<noteq> [])"
| "truthy (PList xs) = (xs \<noteq> [])"
| "truthy (PDict kvs) = (kvs \<noteq> [])"

section \<open>CompressionManager\<close>

text \<open>
  \<^verbatim>\<open>compress_bytes\<close> dispatches on the manager's compression type inside a
  \<^verbatim>\<open>try\<close> whose handler turns every exception into \<^verbatim>\<open>ValueError\<close>.
\<close>

definition clamp_level :: "int \<Rightarrow> int" where
  "clamp_level compression_level = max 1 (min 9 compression_level)"

fun algorithm_compress :: "pylib \<Rightarrow> compression_type \<Rightarrow> bytes \<Rightarrow> int \<Rightarrow> exn + bytes" where
  "algorithm_compress L GZIP data lvl = gzip_compress L data lvl"
| "algorithm_compress L BZIP2 data lvl = bz2_compress L data lvl"
| "algorithm_compress L LZMA data lvl = lzma_compress L data lvl"
| "algorithm_compress L ZLIB data lvl = zlib_compress L data lvl"
| "algorithm_compress L NONE data lvl = Inl ValueError"

fun algorithm_decompress :: "pylib \<Rightarrow> compression_type \<Rightarrow> bytes \<Rightarrow> exn + bytes" where
  "algorithm_decompress L GZIP data = gzip_decompress L data"
| "algorithm_decompress L BZIP2 data = bz2_decompress L data"
| "algorithm_decompress L LZMA data = lzma_decompress L data"
| "algorithm_decompress L ZLIB data = zlib_decompress L data"
| "algorithm_decompress L NONE data = Inl ValueError"

definition as_value_error :: "exn + 'a \<Rightarrow> exn + 'a" where
  "as_value_error r = (case r of Inl e \<Rightarrow> Inl ValueError | Inr x \<Rightarrow> Inr x)"

definition compress_bytes :: "pylib \<Rightarrow> compression_type \<Rightarrow> bytes \<Rightarrow> int \<Rightarrow> exn + bytes" where
  "compress_bytes L ct data compression_level =
     (if data = [] then Inr []
      else if ct = NONE then Inr data
      else as_value_error (algorithm_compress L ct data (clamp_level compression_level)))"

definition compress_string :: "pylib \<Rightarrow> compression_type \<Rightarrow> string \<Rightarrow> int \<Rightarrow> exn + bytes" where
  "compress_string L ct data compression_level =
     (if data = [] then Inr []
      else compress_bytes L ct (utf8_encode L data) compression_level)"

definition decompress_bytes :: "pylib \<Rightarrow> compression_type \<Rightarrow> bytes \<Rightarrow> exn + bytes" where
  "decompress_bytes L ct compressed_data =
     (if compressed_data = [] then Inr []
      else if ct = NONE then Inr compressed_data
      else as_value_error (algorithm_decompress L ct compressed_data))"

definition decompress_string :: "pylib \<Rightarrow> compression_type \<Rightarrow> bytes \<Rightarrow> exn + string" where
  "decompress_string L ct compressed_data =
     (if compressed_data = [] then Inr []
      else case decompress_bytes L ct compressed_data of
             Inl e \<Rightarrow> Inl e
           | Inr decompressed_bytes \<Rightarrow> utf8_decode L decompressed_bytes)"


section \<open>EncryptionManager and DataIntegrityManager\<close>

text \<open>
  \<^verbatim>\<open>encrypt_string\<close> has no handler of its own; \<^verbatim>\<open>decrypt_string\<close> turns every
  exception of its three steps into \<^verbatim>\<open>ValueError\<close>. Both return the empty string for the
  empty string, without calling the cipher.
\<close>

definition encrypt_string :: "pylib \<Rightarrow> string \<Rightarrow> exn + string" where
  "encrypt_string L plaintext =
     (if plaintext = [] then Inr []
      else utf8_decode L (urlsafe_b64encode L (fernet_encrypt L (utf8_encode L plaintext))))"

definition decrypt_string :: "pylib \<Rightarrow> string \<Rightarrow> exn + string" where
  "decrypt_string L encrypted_text =
     (if encrypted_text = [] then Inr []
      else as_value_error
        (case urlsafe_b64decode L (utf8_encode L encrypted_text) of
           Inl e \<Rightarrow> Inl e
         | Inr encrypted_bytes \<Rightarrow>
             (case fernet_decrypt L encrypted_bytes of
                Inl e \<Rightarrow> Inl e
              | Inr decrypted_bytes \<Rightarrow> utf8_decode L decrypted_bytes)))"

text \<open>\<^verbatim>\<open>calculate_hash\<close> takes a \<^verbatim>\<open>str\<close> (\<open>Inl\<close>) or a \<^verbatim>\<open>bytes\<close> (\<open>Inr\<close>).\<close>

definition calculate_hash :: "pylib \<Rightarrow> string + bytes \<Rightarrow> string" where
  "calculate_hash L data =
     sha256_hexdigest L (case data of Inl s \<Rightarrow> utf8_encode L s | Inr b \<Rightarrow> b)"

definition verify_hash :: "pylib \<Rightarrow> string + bytes \<Rightarrow> string \<Rightarrow> bool" where
  "verify_hash L data expected_hash = (calculate_hash L data = expected_hash)"

definition create_checksum :: "pylib \<Rightarrow> pyval \<Rightarrow> string" where
  "create_checksum L data = calculate_hash L (Inl (json_dumps_sorted L data))"

definition verify_checksum :: "pylib \<Rightarrow> pyval \<Rightarrow> string \<Rightarrow> bool" where
  "verify_checksum L data expected_checksum = (create_checksum L data = expected_checksum)"

section \<open>SecurityConfig and the manager object\<close>

definition DEFAULT_COMPRESSION_TYPE :: compression_type where
  "DEFAULT_COMPRESSION_TYPE = GZIP"

definition COMPRESSION_LEVEL :: int where
  "COMPRESSION_LEVEL = 6"

definition ENABLE_COMPRESSION :: bool where
  "ENABLE_COMPRESSION = True"

definition ENABLE_ENCRYPTION :: bool where
  "ENABLE_ENCRYPTION = True"

definition BACKUP_COMPRESSION :: bool where
  "BACKUP_COMPRESSION = True"

definition BACKUP_ENCRYPTION :: bool where
  "BACKUP_ENCRYPTION = True"

definition ENABLE_CHECKSUMS :: bool where
  "ENABLE_CHECKSUMS = True"

text \<open>
  The attributes of a \<^verbatim>\<open>SecureDatabaseManager\<close> that its methods read or assign.
  \<open>compression_type\<close> is \<^verbatim>\<open>self.compression_manager.compression_type\<close>.
\<close>

record manager =
  enable_encryption :: bool
  enable_compression :: bool
  compression_level :: int
  enable_checksums :: bool
  compression_type :: compression_type

definition new_manager :: manager where
  "new_manager =
     \<lparr>enable_encryption = ENABLE_ENCRYPTION,
      enable_compression = ENABLE_COMPRESSION,
      compression_level = COMPRESSION_LEVEL,
      enable_checksums = ENABLE_CHECKSUMS,
      compression_type = DEFAULT_COMPRESSION_TYPE\<rparr>"

fun compression_type_value :: "compression_type \<Rightarrow> string" where
  "compression_type_value GZIP = ''gzip''"
| "compression_type_value BZIP2 = ''bzip2''"
| "compression_type_value LZMA = ''lzma''"
| "compression_type_value ZLIB = ''zlib''"
| "compression_type_value NONE = ''none''"

section \<open>The codec pipeline of SecureDatabaseManager\<close>

text \<open>\<^verbatim>\<open>_secure_data\<close>: serialise, compress if enabled, encrypt if enabled.\<close>

definition secure_data :: "pylib \<Rightarrow> manager \<Rightarrow> pyval \<Rightarrow> exn + string" where
  "secure_data L m data =
     (if data = PNone then Inr []
      else
        let json_data = (if is_dict_or_list data then json_dumps L data else py_str L data) in
        case (if enable_compression m
              then (case compress_string L (compression_type m) json_data (compression_level m) of
                      Inl e \<Rightarrow> Inl e
                    | Inr compressed_data \<Rightarrow> utf8_decode L (b64encode L compressed_data))
              else Inr json_data) of
          Inl e \<Rightarrow> Inl e
        | Inr processed_data \<Rightarrow>
            if enable_encryption m then encrypt_string L processed_data
            else Inr processed_data)"

text \<open>
  One pass of the loop body of \<^verbatim>\<open>_unsecure_data\<close> for the pair
  \<open>(try_encryption, try_compression)\<close>. \<open>decode_steps\<close> is its first half: decrypt if
  flagged, then base64-decode and decompress if flagged; \<open>Inl\<close> is a step that raised.
  In \<open>try_combination\<close>, \<open>None\<close> is \<^verbatim>\<open>continue\<close> and \<open>Some v\<close> is \<^verbatim>\<open>return v\<close>. A
  failed decryption or decompression continues; a \<^verbatim>\<open>JSONDecodeError\<close> of the parser
  returns the text as a string; any other exception of the parser is caught by the outer
  handler, which continues.
\<close>

definition decode_steps :: "pylib \<Rightarrow> manager \<Rightarrow> string \<Rightarrow> bool \<times> bool \<Rightarrow> exn + string" where
  "decode_steps L m secured_data tc =
     (case (if fst tc then decrypt_string L secured_data else Inr secured_data) of
        Inl e \<Rightarrow> Inl e
      | Inr processed_data \<Rightarrow>
          if snd tc
          then (case b64decode L (utf8_encode L processed_data) of
                  Inl e \<Rightarrow> Inl e
                | Inr compressed_bytes \<Rightarrow>
                    decompress_string L (compression_type m) compressed_bytes)
          else Inr processed_data)"

definition try_combination :: "pylib \<Rightarrow> manager \<Rightarrow> string \<Rightarrow> bool \<times> bool \<Rightarrow> pyval option" where
  "try_combination L m secured_data tc =
     (case decode_steps L m secured_data tc of
        Inl e \<Rightarrow> None
      | Inr json_data \<Rightarrow>
          (case json_loads L json_data of
             Inr v \<Rightarrow> Some v
           | Inl e \<Rightarrow> if e = JSONDecodeError then Some (PStr json_data) else None))"

fun try_attempts :: "pylib \<Rightarrow> manager \<Rightarrow> string \<Rightarrow> (bool \<times> bool) list \<Rightarrow> pyval option" where
  "try_attempts L m secured_data [] = None"
| "try_attempts L m secured_data (tc # rest) =
     (case try_combination L m secured_data tc of
        Some v \<Rightarrow> Some v
      | None \<Rightarrow> try_attempts L m secured_data rest)"

definition attempts :: "manager \<Rightarrow> (bool \<times> bool) list" where
  "attempts m =
     [(enable_encryption m, enable_compression m),
      (False, enable_compression m),
      (enable_encryption m, False),
      (False, False)]"

text \<open>
  \<^verbatim>\<open>_unsecure_data\<close>. \<open>Inr v\<close> is \<^verbatim>\<open>return v\<close>; an \<open>Inl\<close> would be an exception that
  leaves the function. The last statement is a \<^verbatim>\<open>try\<close> with a bare \<^verbatim>\<open>except\<close> that
  returns the stored string.
\<close>

definition unsecure_data :: "pylib \<Rightarrow> manager \<Rightarrow> string \<Rightarrow> exn + pyval" where
  "unsecure_data L m secured_data =
     (if secured_data = [] then Inr PNone
      else case try_attempts L m secured_data (attempts m) of
             Some v \<Rightarrow> Inr v
           | None \<Rightarrow>
               (case json_loads L secured_data of
                  Inr v \<Rightarrow> Inr v
                | Inl e \<Rightarrow> Inr (PStr secured_data)))"

section \<open>The database file and the connection manager\<close>

text \<open>
  The state outside the manager object. \<open>app_data_table\<close> holds the rows \<open>(key, value)\<close> of
  the table \<^verbatim>\<open>app_data\<close> in row order, or \<open>None\<close> while the table does not exist; the two time
  stamp columns are written and never read, and are left out. \<open>coming_attempts\<close> is what the
  next passes through the acquisition code of \<^verbatim>\<open>_get_connection_with_retry\<close>
  (\<^verbatim>\<open>sqlite3.connect\<close> and the two \<^verbatim>\<open>PRAGMA\<close> statements) will do: connect, or raise; once
  the list is used up every pass connects. \<open>connects\<close> counts the passes made and \<open>sleeps\<close>
  logs the arguments of \<^verbatim>\<open>time.sleep\<close> in milliseconds. \<open>storage_figures\<close> are the entries
  of \<^verbatim>\<open>get_storage_stats\<close> that are computed from the size of the file and from all of its
  tables. Errors of single SQL statements inside a \<^verbatim>\<open>with\<close> block and errors of file
  input and output are not modelled.
\<close>

datatype conn_outcome = Connected | Raises exn

record metadata_row =
  encryption_enabled :: bool
  compression_enabled :: bool
  compression_type_name :: string
  checksum :: string

record world =
  app_data_table :: "(string \<times> string) list option"
  security_metadata :: "(string \<times> metadata_row) list"
  coming_attempts :: "conn_outcome list"
  connects :: nat
  sleeps :: "nat list"
  files :: "(string \<times> string) list"
  dirs :: "string list"
  storage_figures :: "(string \<times> pyval) list"

definition next_outcome :: "world \<Rightarrow> conn_outcome \<times> world" where
  "next_outcome w =
     (case coming_attempts w of
        [] \<Rightarrow> (Connected, w\<lparr>connects := Suc (connects w)\<rparr>)
      | x # xs \<Rightarrow> (x, w\<lparr>coming_attempts := xs, connects := Suc (connects w)\<rparr>))"

text \<open>\<^verbatim>\<open>"database is locked" in str(e)\<close>.\<close>

fun str_contains :: "string \<Rightarrow> string \<Rightarrow> bool" where
  "str_contains needle [] = (needle = [])"
| "str_contains needle (c # cs) = (prefix needle (c # cs) \<or> str_contains needle cs)"

text \<open>
  The \<^verbatim>\<open>for attempt in range(max_retries)\<close> loop of \<^verbatim>\<open>_get_connection_with_retry\<close>, up
  to its \<^verbatim>\<open>yield\<close>. \<open>Inr ()\<close> is the connection handed to the \<^verbatim>\<open>with\<close> block. A loop
  that ends without a \<^verbatim>\<open>yield\<close> makes \<^verbatim>\<open>contextlib\<close> raise \<^verbatim>\<open>RuntimeError\<close>. The delay
  is in milliseconds (\<^verbatim>\<open>retry_delay=0.1\<close> seconds is \<open>100\<close>).
\<close>

fun retry_loop :: "nat list \<Rightarrow> nat \<Rightarrow> nat \<Rightarrow> world \<Rightarrow> (exn + unit) \<times> world" where
  "retry_loop [] max_retries retry_delay w = (Inl RuntimeError, w)"
| "retry_loop (attempt # rest) max_retries retry_delay w =
     (case next_outcome w of
        (Connected, w1) \<Rightarrow> (Inr (), w1)
      | (Raises e, w1) \<Rightarrow>
          (case e of
             OperationalError msg \<Rightarrow>
               if str_contains ''database is locked'' msg \<and> int attempt < int max_retries - 1
               then retry_loop rest max_retries retry_delay
                      (w1\<lparr>sleeps := sleeps w1 @ [retry_delay * 2 ^ attempt]\<rparr>)
               else (Inl e, w1)
           | _ \<Rightarrow> (Inl e, w1)))"

definition get_connection_with_retry :: "nat \<Rightarrow> nat \<Rightarrow> world \<Rightarrow> (exn + unit) \<times> world" where
  "get_connection_with_retry max_retries retry_delay w =
     retry_loop [0..<max_retries] max_retries retry_delay w"

section \<open>The app data store\<close>

text \<open>
  \<^verbatim>\<open>INSERT OR REPLACE\<close> on the primary key deletes the row of that key and appends the new
  one; \<^verbatim>\<open>d[key] = v\<close> on a \<^verbatim>\<open>dict\<close> replaces the value in place or appends the key.
\<close>

definition insert_or_replace :: "(string \<times> 'v) list \<Rightarrow> string \<times> 'v \<Rightarrow> (string \<times> 'v) list" where
  "insert_or_replace rows kv = filter (\<lambda>r. fst r \<noteq> fst kv) rows @ [kv]"

fun dict_set :: "(string \<times> 'v) list \<Rightarrow> string \<Rightarrow> 'v \<Rightarrow> (string \<times> 'v) list" where
  "dict_set [] k v = [(k, v)]"
| "dict_set ((k', v') # d) k v = (if k' = k then (k, v) # d else (k', v') # dict_set d k v)"

text \<open>
  The loop of \<^verbatim>\<open>save_app_data\<close> that secures every section. The first exception leaves
  the loop; the value of \<^verbatim>\<open>theme_mode\<close> is saved as \<^verbatim>\<open>str(value)\<close> (no value of the model
  has an attribute \<^verbatim>\<open>value\<close>).
\<close>

fun secure_items :: "pylib \<Rightarrow> manager \<Rightarrow> (string \<times> pyval) list \<Rightarrow> exn + (string \<times> string) list" where
  "secure_items L m [] = Inr []"
| "secure_items L m ((key, v) # rest) =
     (case (if key = ''theme_mode'' then secure_data L m (PStr (py_str L v))
            else secure_data L m v) of
        Inl e \<Rightarrow> Inl e
      | Inr secured_value \<Rightarrow>
          (case secure_items L m rest of
             Inl e \<Rightarrow> Inl e
           | Inr secured \<Rightarrow> Inr ((key, secured_value) # secured)))"

text \<open>\<^verbatim>\<open>_update_security_metadata\<close> and the loop that calls it after a successful save.\<close>

definition update_security_metadata :: "pylib \<Rightarrow> manager \<Rightarrow> string \<Rightarrow> pyval \<Rightarrow> world \<Rightarrow> world" where
  "update_security_metadata L m table_name data w =
     (if \<not> enable_checksums m then w
      else w\<lparr>security_metadata :=
             insert_or_replace (security_metadata w)
               (table_name,
                \<lparr>encryption_enabled = enable_encryption m,
                 compression_enabled = enable_compression m,
                 compression_type_name = compression_type_value (compression_type m),
                 checksum = (if truthy data then create_checksum L data else [])\<rparr>)\<rparr>)"

fun update_all_metadata :: "pylib \<Rightarrow> manager \<Rightarrow> (string \<times> pyval) list \<Rightarrow> world \<Rightarrow> world" where
  "update_all_metadata L m [] w = w"
| "update_all_metadata L m ((key, v) # rest) w =
     update_all_metadata L m rest
       (case v of
          PDict kvs \<Rightarrow> update_security_metadata L m (''app_data_'' @ key) v w
        | PList xs \<Rightarrow> update_security_metadata L m (''app_data_'' @ key) (PDict [(''data'', v)]) w
        | _ \<Rightarrow> w)"

text \<open>
  \<^verbatim>\<open>save_app_data\<close>. The table is created as soon as the block is entered (the statement
  is not part of the transaction); the rows are written only when every section was
  secured, since an exception inside the block rolls the transaction back. An argument that
  is not a \<^verbatim>\<open>dict\<close> has no \<^verbatim>\<open>items\<close>, which raises inside the block.
\<close>

definition save_app_data :: "pylib \<Rightarrow> manager \<Rightarrow> pyval \<Rightarrow> world \<Rightarrow> bool \<times> world" where
  "save_app_data L m app_data w =
     (case get_connection_with_retry 5 100 w of
        (Inl e, w1) \<Rightarrow> (False, w1)
      | (Inr conn, w1) \<Rightarrow>
          let rows = (case app_data_table w1 of None \<Rightarrow> [] | Some rs \<Rightarrow> rs);
              w2 = w1\<lparr>app_data_table := Some rows\<rparr>
          in (case app_data of
                PDict items \<Rightarrow>
                  (case secure_items L m items of
                     Inl e \<Rightarrow> (False, w2)
                   | Inr secured \<Rightarrow>
                       (True,
                        update_all_metadata L m items
                          (w2\<lparr>app_data_table := Some (foldl insert_or_replace rows secured)\<rparr>)))
              | _ \<Rightarrow> (False, w2)))"

text \<open>
  \<^verbatim>\<open>load_app_data\<close>. A key whose \<^verbatim>\<open>_unsecure_data\<close> raises is printed and skipped; an
  error of the connection gives the empty map.
\<close>

definition load_app_data :: "pylib \<Rightarrow> manager \<Rightarrow> world \<Rightarrow> (string \<times> pyval) list \<times> world" where
  "load_app_data L m w =
     (case get_connection_with_retry 5 100 w of
        (Inl e, w1) \<Rightarrow> ([], w1)
      | (Inr conn, w1) \<Rightarrow>
          (case app_data_table w1 of
             None \<Rightarrow> ([], w1)
           | Some rows \<Rightarrow>
               (foldl (\<lambda>app_data r.
                         case unsecure_data L m (snd r) of
                           Inl e \<Rightarrow> app_data
                         | Inr unsecured_value \<Rightarrow> dict_set app_data (fst r) unsecured_value)
                  [] rows,
                w1)))"


section \<open>Security settings\<close>

definition update_security_settings ::
  "pylib \<Rightarrow> manager \<Rightarrow> bool option \<Rightarrow> bool option \<Rightarrow> bool option \<Rightarrow> world
     \<Rightarrow> bool \<times> manager \<times> world" where
  "update_security_settings L m encryption compression checksums w =
     (case load_app_data L m w of
        (current_data, w1) \<Rightarrow>
          let m1 = (case encryption of None \<Rightarrow> m | Some b \<Rightarrow> m\<lparr>enable_encryption := b\<rparr>);
              m2 = (case compression of None \<Rightarrow> m1 | Some b \<Rightarrow> m1\<lparr>enable_compression := b\<rparr>);
              m3 = (case checksums of None \<Rightarrow> m2 | Some b \<Rightarrow> m2\<lparr>enable_checksums := b\<rparr>)
          in if current_data \<noteq> []
             then (case save_app_data L m3 (PDict current_data) w1 of
                     (success, w2) \<Rightarrow> (success, m3, w2))
             else (True, m3, w1))"

definition get_current_security_config :: "manager \<Rightarrow> pyval" where
  "get_current_security_config m =
     PDict [(''encryption_enabled'', PBool (enable_encryption m)),
            (''compression_enabled'', PBool (enable_compression m)),
            (''checksums_enabled'', PBool (enable_checksums m)),
            (''compression_type'', PStr (compression_type_value (compression_type m)))]"

section \<open>Backup and restore\<close>





text \<open>
  \<^verbatim>\<open>'app_data' not in backup_data\<close> and \<^verbatim>\<open>backup_data['app_data']\<close> for the values the
  parser can return: membership in a list, substring of a string, key of a dict, and
  \<^verbatim>\<open>TypeError\<close> otherwise.
\<close>

fun contains_app_data :: "pyval \<Rightarrow> exn + bool" where
  "contains_app_data (PDict kvs) = Inr (''app_data'' \<in> set (map fst kvs))"
| "contains_app_data (PList xs) = Inr (PStr ''app_data'' \<in> set xs)"
| "contains_app_data (PStr s) = Inr (str_contains ''app_data'' s)"
| "contains_app_data _ = Inl TypeError"

fun get_app_data :: "pyval \<Rightarrow> exn + pyval" where
  "get_app_data (PDict kvs) = (case map_of kvs ''app_data'' of None \<Rightarrow> Inl KeyError | Some v \<Rightarrow> Inr v)"
| "get_app_data _ = Inl TypeError"

text \<open>
  The part of \<^verbatim>\<open>restore_database\<close> before its call of \<^verbatim>\<open>save_app_data\<close>: read the file,
  decrypt, decompress, parse, validate. It reads the state and does not change it.
\<close>

definition read_backup :: "pylib \<Rightarrow> manager \<Rightarrow> string \<Rightarrow> world \<Rightarrow> exn + pyval" where
  "read_backup L m backup_path w =
     (case map_of (files w) backup_path of
        None \<Rightarrow> Inl FileNotFoundError
      | Some file_content \<Rightarrow>
          (case (if BACKUP_ENCRYPTION then decrypt_string L file_content else Inr file_content) of
             Inl e \<Rightarrow> Inl e
           | Inr content \<Rightarrow>
               (case (if BACKUP_COMPRESSION
                      then (case b64decode L (utf8_encode L content) of
                              Inl e \<Rightarrow> Inl e
                            | Inr compressed_bytes \<Rightarrow>
                                (case decompress_string L (compression_type m) compressed_bytes of
                                   Inl e \<Rightarrow> Inl e
                                 | Inr json_content \<Rightarrow> json_loads L json_content))
                      else json_loads L content) of
                  Inl e \<Rightarrow> Inl e
                | Inr backup_data \<Rightarrow>
                    (case contains_app_data backup_data of
                       Inl e \<Rightarrow> Inl e
                     | Inr present \<Rightarrow>
                         if \<not> present then Inl ValueError else get_app_data backup_data))))"

definition restore_database :: "pylib \<Rightarrow> manager \<Rightarrow> string \<Rightarrow> world \<Rightarrow> bool \<times> world" where
  "restore_database L m backup_path w =
     (case read_backup L m backup_path w of
        Inl e \<Rightarrow> (False, w)
      | Inr app_data \<Rightarrow> save_app_data L m app_data w)"

section \<open>What the libraries guarantee\<close>

text \<open>
  The facts about the library functions that the round trip rests on: serialising never
  gives the empty string; decoding inverts encoding for UTF-8, for both base64 alphabets and
  for the cipher; base64 output is text that encodes to itself; non-empty input gives
  non-empty output; and every algorithm, at a level between 1 and 9, compresses a non-empty
  input to a non-empty output that it decompresses to the input.
\<close>

definition lawful :: "pylib \<Rightarrow> bool" where
  "lawful L \<longleftrightarrow>
     (\<forall>v. json_dumps L v \<noteq> []) \<and>
     (\<forall>s. utf8_decode L (utf8_encode L s) = Inr s) \<and>
     (\<forall>s. (utf8_encode L s = []) = (s = [])) \<and>
     (\<forall>b. \<exists>t. utf8_decode L (b64encode L b) = Inr t \<and> utf8_encode L t = b64encode L b) \<and>
     (\<forall>b. \<exists>t. utf8_decode L (urlsafe_b64encode L b) = Inr t
              \<and> utf8_encode L t = urlsafe_b64encode L b) \<and>
     (\<forall>b. b64decode L (b64encode L b) = Inr b) \<and>
     (\<forall>b. urlsafe_b64decode L (urlsafe_b64encode L b) = Inr b) \<and>
     (\<forall>b. b \<noteq> [] \<longrightarrow> b64encode L b \<noteq> []) \<and>
     (\<forall>b. b \<noteq> [] \<longrightarrow> urlsafe_b64encode L b \<noteq> []) \<and>
     (\<forall>b. fernet_encrypt L b \<noteq> []) \<and>
     (\<forall>b. fernet_decrypt L (fernet_encrypt L b) = Inr b) \<and>
     (\<forall>ct b lvl. ct \<noteq> NONE \<and> b \<noteq> [] \<and> 1 \<le> lvl \<and> lvl \<le> 9 \<longrightarrow>
        (\<exists>c. algorithm_compress L ct b lvl = Inr c \<and> c \<noteq> []
             \<and> algorithm_decompress L ct c = Inr b))"

text \<open>
  The text that \<^verbatim>\<open>_secure_data\<close> stores for a value, and the values that this text
  reads back to: the parser returns the value, or the value is a string that the parser
  rejects with \<^verbatim>\<open>JSONDecodeError\<close>.
\<close>

definition stored_text :: "pylib \<Rightarrow> pyval \<Rightarrow> string" where
  "stored_text L v = (if is_dict_or_list v then json_dumps L v else py_str L v)"

definition reads_back :: "pylib \<Rightarrow> pyval \<Rightarrow> bool" where
  "reads_back L v \<longleftrightarrow>
     v = PNone \<or>
     (stored_text L v \<noteq> [] \<and>
      (json_loads L (stored_text L v) = Inr v
       \<or> (json_loads L (stored_text L v) = Inl JSONDecodeError \<and> v = PStr (stored_text L v))))"

section \<open>The decode search as the specification words it\<close>

text \<open>
  The specification's reading of one candidate: decrypt if flagged, decompress if flagged
  (\<open>decode_steps\<close>), parse, and the candidate is accepted only when every step succeeds.
  It differs from \<open>try_combination\<close> in the last step alone. \<open>spec_first_success\<close> is the result of the
  first accepted candidate in the priority order.
\<close>

definition spec_candidate :: "pylib \<Rightarrow> manager \<Rightarrow> string \<Rightarrow> bool \<times> bool \<Rightarrow> pyval option" where
  "spec_candidate L m secured_data tc =
     (case decode_steps L m secured_data tc of
        Inl e \<Rightarrow> None
      | Inr json_data \<Rightarrow>
          (case json_loads L json_data of
             Inr v \<Rightarrow> Some v
           | Inl e \<Rightarrow> None))"

fun spec_first_success :: "pylib \<Rightarrow> manager \<Rightarrow> string \<Rightarrow> (bool \<times> bool) list \<Rightarrow> pyval option" where
  "spec_first_success L m secured_data [] = None"
| "spec_first_success L m secured_data (tc # rest) =
     (case spec_candidate L m secured_data tc of
        Some v \<Rightarrow> Some v
      | None \<Rightarrow> spec_first_success L m secured_data rest)"

section \<open>Two instances of the library record\<close>

text \<open>
  \<open>sample_json_loads\<close> and \<open>sample_json_dumps\<close> give the results of \<^verbatim>\<open>json.loads\<close> and
  \<^verbatim>\<open>json.dumps\<close> on the few texts and values the examples below use; every other text is
  rejected with \<^verbatim>\<open>JSONDecodeError\<close>, as the texts \<^verbatim>\<open>hi\<close>, \<^verbatim>\<open>light\<close> and \<^verbatim>\<open>garbage\<close>
  are. Text is ASCII, one byte for each character. \<open>quoted s\<close> is \<open>s\<close> between two double
  quotes, the JSON text of the string \<open>s\<close>.
\<close>

definition quoted :: "string \<Rightarrow> string" where
  "quoted s = [CHR 0x22] @ s @ [CHR 0x22]"

text \<open>
  The 22 bytes that \<^verbatim>\<open>gzip.compress(b'hi', 6, mtime=0)\<close> returns, and their base64 text.
\<close>

definition gzip_hi :: bytes where
  "gzip_hi = [31, 139, 8, 0, 0, 0, 0, 0, 0, 3, 203, 200, 4, 0, 172, 42, 147, 216, 2, 0, 0, 0]"

definition gzip_hi_b64 :: string where
  "gzip_hi_b64 = ''H4sIAAAAAAAAA8vIBACsKpPYAgAAAA==''"

definition sample_json_loads :: "string \<Rightarrow> exn + pyval" where
  "sample_json_loads s =
     (if s = ''{}'' then Inr (PDict [])
      else if s = ''[]'' then Inr (PList [])
      else if s = ''123'' then Inr (PInt 123)
      else if s = quoted ''aGk='' then Inr (PStr ''aGk='')
      else if s = quoted gzip_hi_b64 then Inr (PStr gzip_hi_b64)
      else Inl JSONDecodeError)"

fun sample_json_dumps :: "pyval \<Rightarrow> string" where
  "sample_json_dumps (PDict []) = ''{}''"
| "sample_json_dumps (PList []) = ''[]''"
| "sample_json_dumps (PInt n) = (if n = 123 then ''123'' else ''0'')"
| "sample_json_dumps (PStr s) = quoted s"
| "sample_json_dumps v = ''null''"

definition byte_of_char :: "char \<Rightarrow> 8 word" where
  "byte_of_char c = of_nat (of_char c)"

definition char_of_byte :: "8 word \<Rightarrow> char" where
  "char_of_byte b = char_of (unat b)"

definition ascii_encode :: "string \<Rightarrow> bytes" where
  "ascii_encode s = map byte_of_char s"

definition ascii_decode :: "bytes \<Rightarrow> exn + string" where
  "ascii_decode b =
     (if list_all (\<lambda>x. x < 128) b then Inr (map char_of_byte b) else Inl UnicodeDecodeError)"

text \<open>
  \<open>cpython_sample\<close> agrees with CPython on the inputs of the examples. ASCII text encodes
  to its bytes. Both base64 decoders discard the two quotes of a quoted text and decode the
  rest: \<^verbatim>\<open>"aGk="\<close> to \<^verbatim>\<open>hi\<close> and the quoted \<open>gzip_hi_b64\<close> to \<open>gzip_hi\<close>; they reject
  \<^verbatim>\<open>light\<close> and \<^verbatim>\<open>garbage\<close> for their padding. \<^verbatim>\<open>gzip.decompress\<close> maps \<open>gzip_hi\<close> to
  \<^verbatim>\<open>hi\<close>. No byte sequence of the examples is a token of the cipher.
\<close>

definition sample_b64decode :: "bytes \<Rightarrow> exn + bytes" where
  "sample_b64decode b =
     (if b = ascii_encode (quoted ''aGk='') then Inr (ascii_encode ''hi'')
      else if b = ascii_encode (quoted gzip_hi_b64) then Inr gzip_hi
      else Inl BinasciiError)"

definition cpython_sample :: pylib where
  "cpython_sample =
     \<lparr>json_dumps = sample_json_dumps,
      json_loads = sample_json_loads,
      str_builtin = (\<lambda>v. ''None''),
      utf8_encode = ascii_encode,
      utf8_decode = ascii_decode,
      b64encode = (\<lambda>b. b),
      b64decode = sample_b64decode,
      urlsafe_b64encode = (\<lambda>b. b),
      urlsafe_b64decode = sample_b64decode,
      fernet_encrypt = (\<lambda>b. b),
      fernet_decrypt = (\<lambda>b. Inl InvalidToken),
      gzip_compress = (\<lambda>b lvl. Inl LibraryError),
      bz2_compress = (\<lambda>b lvl. Inl LibraryError),
      lzma_compress = (\<lambda>b lvl. Inl LibraryError),
      zlib_compress = (\<lambda>b lvl. Inl LibraryError),
      gzip_decompress = (\<lambda>b. if b = gzip_hi then Inr (ascii_encode ''hi'')
                               else Inl LibraryError),
      bz2_decompress = (\<lambda>b. Inl LibraryError),
      lzma_decompress = (\<lambda>b. Inl LibraryError),
      zlib_decompress = (\<lambda>b. Inl LibraryError),
      sha256_hexdigest = (\<lambda>b. []),
      json_dumps_sorted = sample_json_dumps,
      strftime = (\<lambda>t fmt. ''20240115_103000''),
      isoformat = (\<lambda>t. ''2024-01-15T10:30:00'')\<rparr>"

text \<open>
  \<open>toy_lib\<close> is a small library that satisfies \<open>lawful\<close>: characters and bytes correspond
  one to one, base64 is the identity, the cipher and every compression algorithm put one
  marker byte in front and take it off again.
\<close>

definition toy_wrap :: "8 word \<Rightarrow> bytes \<Rightarrow> bytes" where
  "toy_wrap marker b = marker # b"

fun toy_unwrap :: "8 word \<Rightarrow> exn \<Rightarrow> bytes \<Rightarrow> exn + bytes" where
  "toy_unwrap marker e [] = Inl e"
| "toy_unwrap marker e (x # b) = (if x = marker then Inr b else Inl e)"

definition toy_lib :: pylib where
  "toy_lib =
     \<lparr>json_dumps = sample_json_dumps,
      json_loads = sample_json_loads,
      str_builtin = (\<lambda>v. ''None''),
      utf8_encode = map byte_of_char,
      utf8_decode = (\<lambda>b. Inr (map char_of_byte b)),
      b64encode = (\<lambda>b. b),
      b64decode = Inr,
      urlsafe_b64encode = (\<lambda>b. b),
      urlsafe_b64decode = Inr,
      fernet_encrypt = toy_wrap 128,
      fernet_decrypt = toy_unwrap 128 InvalidToken,
      gzip_compress = (\<lambda>b lvl. Inr (toy_wrap 31 b)),
      bz2_compress = (\<lambda>b lvl. Inr (toy_wrap 66 b)),
      lzma_compress = (\<lambda>b lvl. Inr (toy_wrap 253 b)),
      zlib_compress = (\<lambda>b lvl. Inr (toy_wrap 120 b)),
      gzip_decompress = toy_unwrap 31 LibraryError,
      bz2_decompress = toy_unwrap 66 LibraryError,
      lzma_decompress = toy_unwrap 253 LibraryError,
      zlib_decompress = toy_unwrap 120 LibraryError,
      sha256_hexdigest = (\<lambda>b. map char_of_byte b),
      json_dumps_sorted = sample_json_dumps,
      strftime = (\<lambda>t fmt. ''20240115_103000''),
      isoformat = (\<lambda>t. ''2024-01-15T10:30:00'')\<rparr>"

section \<open>Example states\<close>

definition plain_manager :: manager where
  "plain_manager = new_manager\<lparr>enable_encryption := False, enable_compression := False\<rparr>"

definition passthrough_manager :: manager where
  "passthrough_manager = new_manager\<lparr>enable_encryption := False, compression_type := NONE\<rparr>"

definition empty_world :: world where
  "empty_world =
     \<lparr>app_data_table = None,
      security_metadata = [],
      coming_attempts = [],
      connects = 0,
      sleeps = [],
      files = [],
      dirs = [],
      storage_figures = []\<rparr>"

definition corrupt_world :: world where
  "corrupt_world = empty_world\<lparr>app_data_table := Some [(''handovers'', ''garbage'')]\<rparr>"

definition busy :: conn_outcome where
  "busy = Raises (OperationalError ''database is locked'')"

definition failing_world :: world where
  "failing_world =
     empty_world\<lparr>app_data_table := Some [(''theme_mode'', ''light'')],
                 coming_attempts := [Connected, Raises (OperationalError ''disk I/O error'')]\<rparr>"


text \<open>
  The file that \<open>toy_lib\<close> reads back to a given manifest text: the marker of the cipher,
  the marker of gzip, the text.
\<close>

definition toy_file :: "string \<Rightarrow> string" where
  "toy_file json_content = map char_of_byte (128 # 31 # map byte_of_char json_content)"

text \<open>
  A library whose gzip puts the level in front of the data and rejects every level outside
  \<open>[1, 9]\<close>; whatever it returns shows the level it was called with.
\<close>

definition strict_level_lib :: pylib where
  "strict_level_lib =
     toy_lib\<lparr>gzip_compress :=
               (\<lambda>b lvl. if 1 \<le> lvl \<and> lvl \<le> 9 then Inr (of_int lvl # b)
                        else Inl LibraryError)\<rparr>"

section \<open>Properties of the compression codec\<close>

lemma clamp_level_range: "1 \<le> clamp_level n \<and> clamp_level n \<le> 9"
  by (simp add: clamp_level_def)

lemma clamp_level_idem: "clamp_level (clamp_level n) = clamp_level n"
  by (simp add: clamp_level_def)

text \<open>
  C9. With compression type \<^verbatim>\<open>none\<close> both \<^verbatim>\<open>compress_bytes\<close> and
  \<^verbatim>\<open>decompress_bytes\<close> return their argument, for every byte sequence and every level.
  For each of the other four types, \<^verbatim>\<open>compress_bytes\<close> on a non-empty input is one call of
  that type's library function (\<^verbatim>\<open>gzip.compress\<close>, \<^verbatim>\<open>bz2.compress\<close>,
  \<^verbatim>\<open>lzma.compress\<close>, \<^verbatim>\<open>zlib.compress\<close>) with the data and the level
  \<open>max 1 (min 9 level)\<close>, which lies in \<open>[1, 9]\<close>; an exception of the call becomes
  \<^verbatim>\<open>ValueError\<close>. So compressing at a level gives the same result as compressing at the
  clamped level.
\<close>

theorem compress_bytes_none_identity_and_level_clamped:
  "compress_bytes L NONE d lvl = Inr d
   \<and> decompress_bytes L NONE d = Inr d
   \<and> compress_bytes L ct d lvl = compress_bytes L ct d (max 1 (min 9 lvl))
   \<and> compress_bytes L GZIP d lvl =
       (if d = [] then Inr [] else as_value_error (gzip_compress L d (max 1 (min 9 lvl))))
   \<and> compress_bytes L BZIP2 d lvl =
       (if d = [] then Inr [] else as_value_error (bz2_compress L d (max 1 (min 9 lvl))))
   \<and> compress_bytes L LZMA d lvl =
       (if d = [] then Inr [] else as_value_error (lzma_compress L d (max 1 (min 9 lvl))))
   \<and> compress_bytes L ZLIB d lvl =
       (if d = [] then Inr [] else as_value_error (zlib_compress L d (max 1 (min 9 lvl))))
   \<and> compress_bytes L ct d lvl =
       (if d = [] then Inr []
        else if ct = NONE then Inr d
        else as_value_error (algorithm_compress L ct d (max 1 (min 9 lvl))))
   \<and> 1 \<le> max 1 (min 9 lvl) \<and> max 1 (min 9 lvl) \<le> 9"
  by (simp add: compress_bytes_def decompress_bytes_def clamp_level_def)

theorem compress_bytes_none_identity_and_level_clamped_witness:
  "compress_bytes strict_level_lib GZIP [7] 42 = Inr [9, 7]
   \<and> compress_bytes strict_level_lib GZIP [7] (- 3) = Inr [1, 7]
   \<and> compress_bytes strict_level_lib GZIP [7] 6 = Inr [6, 7]
   \<and> gzip_compress strict_level_lib [7] 42 = Inl LibraryError
   \<and> gzip_compress strict_level_lib [7] (- 3) = Inl LibraryError
   \<and> compress_bytes strict_level_lib NONE [7] 42 = Inr [7]
   \<and> decompress_bytes strict_level_lib NONE [7] = Inr [7]"
proof -
  have g: "gzip_compress strict_level_lib b lvl =
             (if 1 \<le> lvl \<and> lvl \<le> 9 then Inr (of_int lvl # b) else Inl LibraryError)" for b lvl
    by (simp add: strict_level_lib_def)
  have hi: "compress_bytes strict_level_lib GZIP [7] 42 =
       (if [7] = ([] :: bytes) then Inr []
        else as_value_error (gzip_compress strict_level_lib [7] (max 1 (min 9 42))))"
    using compress_bytes_none_identity_and_level_clamped [of strict_level_lib "[7]" 42 GZIP]
    by blast
  have lo: "compress_bytes strict_level_lib GZIP [7] (- 3) =
       (if [7] = ([] :: bytes) then Inr []
        else as_value_error (gzip_compress strict_level_lib [7] (max 1 (min 9 (- 3)))))"
    using compress_bytes_none_identity_and_level_clamped [of strict_level_lib "[7]" "- 3" GZIP]
    by blast
  have mid: "compress_bytes strict_level_lib GZIP [7] 6 =
       (if [7] = ([] :: bytes) then Inr []
        else as_value_error (gzip_compress strict_level_lib [7] (max 1 (min 9 6))))"
    using compress_bytes_none_identity_and_level_clamped [of strict_level_lib "[7]" 6 GZIP]
    by blast
  have none: "compress_bytes strict_level_lib NONE [7] 42 = Inr [7]"
    and unnone: "decompress_bytes strict_level_lib NONE [7] = Inr [7]"
    using compress_bytes_none_identity_and_level_clamped [of strict_level_lib "[7]" 42 GZIP]
    by blast+
  show ?thesis
    by (simp add: hi lo mid none unnone g as_value_error_def)
qed

section \<open>The sample libraries\<close>

lemma char_byte: "char_of_byte (byte_of_char c) = c"
  by (simp add: char_of_byte_def byte_of_char_def unat_of_nat)

lemma byte_char: "byte_of_char (char_of_byte b) = b"
proof -
  have "unat b < 256" using unsigned_less [of b, where 'a = nat] by simp
  then have "unat b mod 256 = unat b" by simp
  then show ?thesis
    by (simp add: char_of_byte_def byte_of_char_def)
qed

lemma char_byte_comp: "char_of_byte \<circ> byte_of_char = id"
  by (simp add: fun_eq_iff char_byte)

lemma byte_char_comp: "byte_of_char \<circ> char_of_byte = id"
  by (simp add: fun_eq_iff byte_char)

lemma sample_json_dumps_nonempty: "sample_json_dumps v \<noteq> []"
  by (induction v rule: sample_json_dumps.induct) (auto simp: quoted_def)

lemma toy_compress_law:
  "ct \<noteq> NONE \<Longrightarrow>
   \<exists>c. algorithm_compress toy_lib ct b lvl = Inr c \<and> c \<noteq> []
       \<and> algorithm_decompress toy_lib ct c = Inr b"
  by (cases ct) (simp_all add: toy_lib_def toy_wrap_def)

lemma toy_lawful: "lawful toy_lib"
  unfolding lawful_def
  apply (intro conjI allI impI)
  apply (simp_all add: toy_compress_law)
  apply (simp_all add: toy_lib_def char_byte_comp byte_char_comp toy_wrap_def sample_json_dumps_nonempty)
  done



lemma lawful_utf8: "lawful L \<Longrightarrow> utf8_decode L (utf8_encode L s) = Inr s"
  by (simp add: lawful_def)

lemma lawful_utf8_empty: "lawful L \<Longrightarrow> (utf8_encode L s = []) = (s = [])"
  by (simp add: lawful_def)

lemma lawful_b64_text:
  "lawful L \<Longrightarrow> \<exists>t. utf8_decode L (b64encode L b) = Inr t \<and> utf8_encode L t = b64encode L b"
  by (simp add: lawful_def)

lemma lawful_urlsafe_text:
  "lawful L \<Longrightarrow>
   \<exists>t. utf8_decode L (urlsafe_b64encode L b) = Inr t \<and> utf8_encode L t = urlsafe_b64encode L b"
  by (simp add: lawful_def)

lemma lawful_b64: "lawful L \<Longrightarrow> b64decode L (b64encode L b) = Inr b"
  by (simp add: lawful_def)

lemma lawful_urlsafe: "lawful L \<Longrightarrow> urlsafe_b64decode L (urlsafe_b64encode L b) = Inr b"
  by (simp add: lawful_def)

lemma lawful_b64_nonempty: "lawful L \<Longrightarrow> b \<noteq> [] \<Longrightarrow> b64encode L b \<noteq> []"
  by (simp add: lawful_def)

lemma lawful_urlsafe_nonempty: "lawful L \<Longrightarrow> b \<noteq> [] \<Longrightarrow> urlsafe_b64encode L b \<noteq> []"
  by (simp add: lawful_def)

lemma lawful_token_nonempty: "lawful L \<Longrightarrow> fernet_encrypt L b \<noteq> []"
  by (simp add: lawful_def)

lemma lawful_fernet: "lawful L \<Longrightarrow> fernet_decrypt L (fernet_encrypt L b) = Inr b"
  by (simp add: lawful_def)

lemma lawful_compress:
  "lawful L \<Longrightarrow> ct \<noteq> NONE \<Longrightarrow> b \<noteq> [] \<Longrightarrow> 1 \<le> lvl \<Longrightarrow> lvl \<le> 9 \<Longrightarrow>
   \<exists>c. algorithm_compress L ct b lvl = Inr c \<and> c \<noteq> [] \<and> algorithm_decompress L ct c = Inr b"
  by (simp add: lawful_def)

lemma encrypt_then_decrypt:
  assumes "lawful L" and "s \<noteq> []"
  shows "\<exists>p. encrypt_string L s = Inr p \<and> p \<noteq> [] \<and> decrypt_string L p = Inr s"
proof -
  let ?token = "fernet_encrypt L (utf8_encode L s)"
  from lawful_urlsafe_text [OF assms(1), of ?token]
  obtain p where p: "utf8_decode L (urlsafe_b64encode L ?token) = Inr p"
    and enc: "utf8_encode L p = urlsafe_b64encode L ?token"
    by blast
  have "urlsafe_b64encode L ?token \<noteq> []"
    by (rule lawful_urlsafe_nonempty [OF assms(1) lawful_token_nonempty [OF assms(1)]])
  with enc have "utf8_encode L p \<noteq> []" by simp
  then have pne: "p \<noteq> []" by (simp add: lawful_utf8_empty [OF assms(1)])
  have "encrypt_string L s = Inr p"
    using p assms(2) by (simp add: encrypt_string_def)
  moreover have "decrypt_string L p = Inr s"
    using pne enc
    by (simp add: decrypt_string_def as_value_error_def lawful_urlsafe [OF assms(1)]
        lawful_fernet [OF assms(1)] lawful_utf8 [OF assms(1)])
  ultimately show ?thesis using pne by blast
qed

lemma compress_then_decompress:
  assumes "lawful L" and "s \<noteq> []"
  shows "\<exists>c. compress_string L ct s lvl = Inr c \<and> c \<noteq> [] \<and> decompress_string L ct c = Inr s"
proof -
  let ?b = "utf8_encode L s"
  from assms have b: "?b \<noteq> []" by (simp add: lawful_utf8_empty)
  have dec: "utf8_decode L ?b = Inr s" by (rule lawful_utf8 [OF assms(1)])
  show ?thesis
  proof (cases "ct = NONE")
    case True
    with b dec assms(2) show ?thesis
      by (simp add: compress_string_def compress_bytes_def decompress_string_def
          decompress_bytes_def)
  next
    case False
    have "1 \<le> clamp_level lvl" and "clamp_level lvl \<le> 9" by (simp_all add: clamp_level_def)
    from lawful_compress [OF assms(1) False b this]
    obtain c where c: "algorithm_compress L ct ?b (clamp_level lvl) = Inr c"
      and "c \<noteq> []" and "algorithm_decompress L ct c = Inr ?b"
      by blast
    with False b dec assms(2) show ?thesis
      by (simp add: compress_string_def compress_bytes_def decompress_string_def
          decompress_bytes_def as_value_error_def)
  qed
qed

lemma b64_text_then_decode:
  assumes "lawful L" and "c \<noteq> []"
  shows "\<exists>t. utf8_decode L (b64encode L c) = Inr t \<and> t \<noteq> []
             \<and> b64decode L (utf8_encode L t) = Inr c"
proof -
  from lawful_b64_text [OF assms(1), of c]
  obtain t where t: "utf8_decode L (b64encode L c) = Inr t"
    and enc: "utf8_encode L t = b64encode L c"
    by blast
  from assms have "b64encode L c \<noteq> []" by (simp add: lawful_b64_nonempty)
  with enc have "utf8_encode L t \<noteq> []" by simp
  then have "t \<noteq> []" by (simp add: lawful_utf8_empty [OF assms(1)])
  moreover from enc have "b64decode L (utf8_encode L t) = Inr c"
    by (simp add: lawful_b64 [OF assms(1)])
  ultimately show ?thesis using t by blast
qed

lemma byte_of_char_inj: "(byte_of_char a = byte_of_char b) = (a = b)"
  by (metis char_byte)

lemma cpython_sample_fields:
  "json_loads cpython_sample = sample_json_loads"
  "utf8_encode cpython_sample = ascii_encode"
  "utf8_decode cpython_sample = ascii_decode"
  "b64encode cpython_sample = (\<lambda>b. b)"
  "b64decode cpython_sample = sample_b64decode"
  "urlsafe_b64decode cpython_sample = sample_b64decode"
  "fernet_decrypt cpython_sample = (\<lambda>b. Inl InvalidToken)"
  "gzip_decompress cpython_sample =
     (\<lambda>b. if b = gzip_hi then Inr (ascii_encode ''hi'') else Inl LibraryError)"
  by (simp_all add: cpython_sample_def)

lemma sample_b64decode_values:
  "sample_b64decode (ascii_encode ''light'') = Inl BinasciiError"
  "sample_b64decode (ascii_encode ''garbage'') = Inl BinasciiError"
  "sample_b64decode (ascii_encode (quoted ''aGk='')) = Inr (ascii_encode ''hi'')"
  "sample_b64decode (ascii_encode (quoted gzip_hi_b64)) = Inr gzip_hi"
  by (simp_all add: sample_b64decode_def ascii_encode_def quoted_def gzip_hi_b64_def
      byte_of_char_inj)

lemma sample_json_loads_values:
  "sample_json_loads ''light'' = Inl JSONDecodeError"
  "sample_json_loads ''garbage'' = Inl JSONDecodeError"
  "sample_json_loads ''hi'' = Inl JSONDecodeError"
  "sample_json_loads ''123'' = Inr (PInt 123)"
  "sample_json_loads (quoted ''aGk='') = Inr (PStr ''aGk='')"
  "sample_json_loads (quoted gzip_hi_b64) = Inr (PStr gzip_hi_b64)"
  by (simp_all add: sample_json_loads_def quoted_def gzip_hi_b64_def)

lemma ascii_decode_hi: "ascii_decode (ascii_encode ''hi'') = Inr ''hi''"
proof -
  have "byte_of_char CHR ''h'' < 128" and "byte_of_char CHR ''i'' < 128"
    by (simp_all add: byte_of_char_def)
  then show ?thesis by (simp add: ascii_decode_def ascii_encode_def char_byte)
qed

lemma sample_decrypt_fails: "s \<noteq> [] \<Longrightarrow> decrypt_string cpython_sample s = Inl ValueError"
  by (simp add: decrypt_string_def as_value_error_def cpython_sample_fields split: sum.splits)

lemma sample_steps:
  "s \<noteq> [] \<Longrightarrow> decode_steps cpython_sample m s (True, c) = Inl ValueError"
  "decode_steps cpython_sample m s (False, False) = Inr s"
  "sample_b64decode (ascii_encode s) = Inl e \<Longrightarrow>
     decode_steps cpython_sample m s (False, True) = Inl e"
  by (simp_all add: decode_steps_def sample_decrypt_fails cpython_sample_fields)

lemma unsecure_plain_text:
  assumes "s \<noteq> []" and "sample_b64decode (ascii_encode s) = Inl e"
    and "sample_json_loads s = Inl JSONDecodeError"
  shows "unsecure_data cpython_sample m s = Inr (PStr s)"
  using assms
  by (cases "enable_encryption m"; cases "enable_compression m")
     (simp_all add: unsecure_data_def attempts_def try_combination_def sample_steps
        cpython_sample_fields)

lemma unsecure_light: "unsecure_data cpython_sample m ''light'' = Inr (PStr ''light'')"
  by (rule unsecure_plain_text) (simp_all add: sample_b64decode_values sample_json_loads_values)

lemma unsecure_garbage: "unsecure_data cpython_sample m ''garbage'' = Inr (PStr ''garbage'')"
  by (rule unsecure_plain_text) (simp_all add: sample_b64decode_values sample_json_loads_values)

lemma new_manager_attempts:
  "attempts new_manager = [(True, True), (False, True), (True, False), (False, False)]"
  by (simp add: attempts_def new_manager_def ENABLE_ENCRYPTION_def ENABLE_COMPRESSION_def)

section \<open>Round trip of the codec pipeline\<close>

lemma pipeline_inverts:
  assumes "lawful L" and "text \<noteq> []"
  shows "\<exists>p. p \<noteq> [] \<and>
     (case (if enable_compression m
            then (case compress_string L (compression_type m) text (compression_level m) of
                    Inl e \<Rightarrow> Inl e
                  | Inr compressed_data \<Rightarrow> utf8_decode L (b64encode L compressed_data))
            else Inr text) of
        Inl e \<Rightarrow> Inl e
      | Inr processed_data \<Rightarrow>
          if enable_encryption m then encrypt_string L processed_data
          else Inr processed_data) = Inr p \<and>
     try_combination L m p (enable_encryption m, enable_compression m) =
       (case json_loads L text of
          Inr v \<Rightarrow> Some v
        | Inl e \<Rightarrow> if e = JSONDecodeError then Some (PStr text) else None)"
proof -
  have "\<exists>q. q \<noteq> [] \<and> (if enable_compression m
            then (case compress_string L (compression_type m) text (compression_level m) of
                    Inl e \<Rightarrow> Inl e
                  | Inr compressed_data \<Rightarrow> utf8_decode L (b64encode L compressed_data))
            else Inr text) = Inr q \<and>
         (if enable_compression m
                 then (case b64decode L (utf8_encode L q) of
                         Inl e \<Rightarrow> Inl e
                       | Inr compressed_bytes \<Rightarrow>
                           decompress_string L (compression_type m) compressed_bytes)
                 else Inr q) = Inr text"
  proof (cases "enable_compression m")
    case True
    from compress_then_decompress [OF assms, of "compression_type m" "compression_level m"]
    obtain c where c: "compress_string L (compression_type m) text (compression_level m) = Inr c"
      and cne: "c \<noteq> []" and d: "decompress_string L (compression_type m) c = Inr text"
      by blast
    from b64_text_then_decode [OF assms(1) cne]
    obtain t where "utf8_decode L (b64encode L c) = Inr t" and "t \<noteq> []"
      and "b64decode L (utf8_encode L t) = Inr c"
      by blast
    with True c d show ?thesis by simp
  next
    case False
    with assms(2) show ?thesis by simp
  qed
  then obtain q where q: "q \<noteq> []"
    and q_enc: "(if enable_compression m
            then (case compress_string L (compression_type m) text (compression_level m) of
                    Inl e \<Rightarrow> Inl e
                  | Inr compressed_data \<Rightarrow> utf8_decode L (b64encode L compressed_data))
            else Inr text) = Inr q"
    and q_dec: "(if enable_compression m
                 then (case b64decode L (utf8_encode L q) of
                         Inl e \<Rightarrow> Inl e
                       | Inr compressed_bytes \<Rightarrow>
                           decompress_string L (compression_type m) compressed_bytes)
                 else Inr q) = Inr text"
    by blast
  show ?thesis
  proof (cases "enable_encryption m")
    case True
    from encrypt_then_decrypt [OF assms(1) q]
    obtain p where "encrypt_string L q = Inr p" and "p \<noteq> []" and "decrypt_string L p = Inr q"
      by blast
    with True q_enc q_dec show ?thesis
      by (intro exI [of _ p]) (simp add: try_combination_def decode_steps_def)
  next
    case False
    with q q_enc q_dec show ?thesis
      by (intro exI [of _ q]) (simp add: try_combination_def decode_steps_def)
  qed
qed

lemma secure_data_unfold:
  "v \<noteq> PNone \<Longrightarrow>
   secure_data L m v =
     (case (if enable_compression m
            then (case compress_string L (compression_type m) (stored_text L v)
                         (compression_level m) of
                    Inl e \<Rightarrow> Inl e
                  | Inr compressed_data \<Rightarrow> utf8_decode L (b64encode L compressed_data))
            else Inr (stored_text L v)) of
        Inl e \<Rightarrow> Inl e
      | Inr processed_data \<Rightarrow>
          if enable_encryption m then encrypt_string L processed_data
          else Inr processed_data)"
  by (simp add: secure_data_def stored_text_def Let_def)

text \<open>
  C1, as the code has it. For every library that satisfies \<open>lawful\<close>, every setting of the
  manager (encryption on or off, compression on or off, each of the five compression types,
  any level) and every value that reads back (\<^verbatim>\<open>None\<close>, or a value whose stored text is
  not empty and is parsed to the value, or a string that is not JSON), \<^verbatim>\<open>_secure_data\<close>
  returns a payload and \<^verbatim>\<open>_unsecure_data\<close> of that payload, under the same manager,
  returns the value.
\<close>

theorem secure_then_unsecure_returns_value:
  assumes "lawful L" and "reads_back L v"
  shows "\<exists>p. secure_data L m v = Inr p \<and> unsecure_data L m p = Inr v"
proof (cases "v = PNone")
  case True
  then show ?thesis by (simp add: secure_data_def unsecure_data_def)
next
  case False
  with assms(2) have nonempty: "stored_text L v \<noteq> []"
    and parse: "json_loads L (stored_text L v) = Inr v
       \<or> (json_loads L (stored_text L v) = Inl JSONDecodeError \<and> v = PStr (stored_text L v))"
    by (simp_all add: reads_back_def)
  from pipeline_inverts [OF assms(1) nonempty, of m]
  obtain p where p: "p \<noteq> []"
    and enc0: "(case (if enable_compression m
            then (case compress_string L (compression_type m) (stored_text L v)
                         (compression_level m) of
                    Inl e \<Rightarrow> Inl e
                  | Inr compressed_data \<Rightarrow> utf8_decode L (b64encode L compressed_data))
            else Inr (stored_text L v)) of
        Inl e \<Rightarrow> Inl e
      | Inr processed_data \<Rightarrow>
          if enable_encryption m then encrypt_string L processed_data
          else Inr processed_data) = Inr p"
    and dec: "try_combination L m p (enable_encryption m, enable_compression m) =
       (case json_loads L (stored_text L v) of
          Inr v \<Rightarrow> Some v
        | Inl e \<Rightarrow> if e = JSONDecodeError then Some (PStr (stored_text L v)) else None)"
    by blast
  from enc0 have enc: "secure_data L m v = Inr p"
    by (simp only: secure_data_unfold [OF False])
  from parse dec have "try_combination L m p (enable_encryption m, enable_compression m) = Some v"
    by auto
  then have "unsecure_data L m p = Inr v"
    using p by (simp add: unsecure_data_def attempts_def)
  with enc show ?thesis by blast
qed

theorem secure_then_unsecure_returns_value_witness:
  "lawful toy_lib \<and> reads_back toy_lib (PDict []) \<and>
   (\<exists>p. secure_data toy_lib new_manager (PDict []) = Inr p
        \<and> unsecure_data toy_lib new_manager p = Inr (PDict []))"
proof -
  have r: "reads_back toy_lib (PDict [])"
    by (simp add: reads_back_def stored_text_def toy_lib_def sample_json_loads_def)
  from secure_then_unsecure_returns_value [OF toy_lawful r, of new_manager] toy_lawful r
  show ?thesis by simp
qed

text \<open>
  C1 as stated fails for strings. The empty string is stored as the empty payload, which
  reads back as \<^verbatim>\<open>None\<close>, under every setting; and a string that is JSON text, such as
  \<^verbatim>\<open>"123"\<close>, reads back as the parsed value.
\<close>

theorem roundtrip_fails_for_strings:
  "secure_data cpython_sample new_manager (PStr []) = Inr []
   \<and> unsecure_data cpython_sample new_manager [] = Inr PNone
   \<and> secure_data cpython_sample plain_manager (PStr []) = Inr []
   \<and> unsecure_data cpython_sample plain_manager [] = Inr PNone
   \<and> secure_data cpython_sample plain_manager (PStr ''123'') = Inr ''123''
   \<and> unsecure_data cpython_sample plain_manager ''123'' = Inr (PInt 123)"
  by (simp add: secure_data_def unsecure_data_def compress_string_def encrypt_string_def
      cpython_sample_fields new_manager_def plain_manager_def ascii_decode_def
      ENABLE_ENCRYPTION_def ENABLE_COMPRESSION_def attempts_def try_combination_def
      decode_steps_def sample_json_loads_values)

section \<open>The fallback search of the decoder\<close>

lemma try_attempts_skip:
  "\<forall>c \<in> set earlier. try_combination L m s c = None \<Longrightarrow>
   try_attempts L m s (earlier @ rest) = try_attempts L m s rest"
  by (induction earlier) simp_all

lemma try_combination_None_iff:
  "try_combination L m s c = None \<longleftrightarrow>
     (\<exists>e. decode_steps L m s c = Inl e)
     \<or> (\<exists>t e. decode_steps L m s c = Inr t \<and> json_loads L t = Inl e \<and> e \<noteq> JSONDecodeError)"
  by (auto simp: try_combination_def split: sum.splits)

text \<open>
  C2, as the code has it. The decoder goes through four candidates in the order current
  setting, encryption off, compression off, both off. For each it decrypts if flagged and
  then decompresses if flagged. A candidate for which one of these two steps raises, or
  whose text makes the parser raise something other than \<^verbatim>\<open>JSONDecodeError\<close>, is passed
  over silently. The first candidate not passed over decides the result: the parsed value,
  or, when the parser rejects the text with \<^verbatim>\<open>JSONDecodeError\<close>, the text itself as a
  string.
\<close>

theorem unsecure_data_returns_first_decodable_candidate:
  assumes "secured_data \<noteq> []"
    and "attempts m = earlier @ tc # later"
    and "\<forall>c \<in> set earlier.
           (\<exists>e. decode_steps L m secured_data c = Inl e)
           \<or> (\<exists>t e. decode_steps L m secured_data c = Inr t \<and> json_loads L t = Inl e
                     \<and> e \<noteq> JSONDecodeError)"
    and "decode_steps L m secured_data tc = Inr json_data"
    and "json_loads L json_data = Inr v
         \<or> (json_loads L json_data = Inl JSONDecodeError \<and> v = PStr json_data)"
  shows "unsecure_data L m secured_data = Inr v
         \<and> attempts m = [(enable_encryption m, enable_compression m),
                          (False, enable_compression m),
                          (enable_encryption m, False),
                          (False, False)]"
proof -
  from assms(3) have "\<forall>c \<in> set earlier. try_combination L m secured_data c = None"
    by (simp add: try_combination_None_iff)
  then have "try_attempts L m secured_data (attempts m)
             = try_attempts L m secured_data (tc # later)"
    unfolding assms(2) by (rule try_attempts_skip)
  moreover from assms(4,5) have "try_combination L m secured_data tc = Some v"
    by (auto simp: try_combination_def)
  ultimately have "try_attempts L m secured_data (attempts m) = Some v" by simp
  with assms(1) have "unsecure_data L m secured_data = Inr v"
    by (simp add: unsecure_data_def)
  then show ?thesis by (simp add: attempts_def)
qed

theorem unsecure_data_returns_first_decodable_candidate_witness:
  "unsecure_data cpython_sample new_manager ''light'' = Inr (PStr ''light'')
   \<and> attempts new_manager = [(True, True), (False, True), (True, False), (False, False)]"
proof -
  have a: "attempts new_manager = [(True, True), (False, True), (True, False)] @ (False, False) # []"
    by (simp add: new_manager_attempts)
  have earlier: "\<forall>c \<in> set [(True, True), (False, True), (True, False)].
           (\<exists>e. decode_steps cpython_sample new_manager ''light'' c = Inl e)
           \<or> (\<exists>t e. decode_steps cpython_sample new_manager ''light'' c = Inr t
                     \<and> json_loads cpython_sample t = Inl e \<and> e \<noteq> JSONDecodeError)"
    by (simp add: sample_steps sample_b64decode_values)
  have steps: "decode_steps cpython_sample new_manager ''light'' (False, False) = Inr ''light''"
    by (rule sample_steps)
  have parse: "json_loads cpython_sample ''light'' = Inr (PStr ''light'')
         \<or> (json_loads cpython_sample ''light'' = Inl JSONDecodeError
             \<and> PStr ''light'' = PStr ''light'')"
    by (simp add: cpython_sample_fields sample_json_loads_values)
  have ne: "''light'' \<noteq> []" by simp
  from unsecure_data_returns_first_decodable_candidate [OF ne a earlier steps parse]
  show ?thesis
    by (simp add: new_manager_def ENABLE_ENCRYPTION_def ENABLE_COMPRESSION_def)
qed

text \<open>
  C2 as stated fails, under the default settings (encryption on, compression on, gzip). The
  stored payload is the JSON string \<open>quoted gzip_hi_b64\<close>, quotes included. The first
  candidate fails to decrypt. For the second, base64 decoding discards the quotes, the bytes
  decompress to \<^verbatim>\<open>hi\<close>, and \<^verbatim>\<open>hi\<close> is not JSON; the code returns \<^verbatim>\<open>hi\<close> there. The first
  candidate for which every step succeeds is the fourth, which parses the payload to the
  string \<open>gzip_hi_b64\<close>. The same happens with compression type \<^verbatim>\<open>none\<close> and the payload
  \<^verbatim>\<open>"aGk="\<close>.
\<close>

theorem parse_failure_does_not_skip_candidate:
  "spec_first_success cpython_sample new_manager (quoted gzip_hi_b64) (attempts new_manager)
     = Some (PStr gzip_hi_b64)
   \<and> unsecure_data cpython_sample new_manager (quoted gzip_hi_b64) = Inr (PStr ''hi'')
   \<and> spec_first_success cpython_sample passthrough_manager (quoted ''aGk='')
       (attempts passthrough_manager) = Some (PStr ''aGk='')
   \<and> unsecure_data cpython_sample passthrough_manager (quoted ''aGk='') = Inr (PStr ''hi'')"
proof -
  have ne: "quoted s \<noteq> []" for s by (simp add: quoted_def)
  have gz: "gzip_hi \<noteq> []" by (simp add: gzip_hi_def)
  have unzip: "decode_steps cpython_sample new_manager (quoted gzip_hi_b64) (False, True)
                 = Inr ''hi''"
    using gz
    by (simp add: decode_steps_def cpython_sample_fields sample_b64decode_values
        decompress_string_def decompress_bytes_def as_value_error_def ascii_decode_hi
        new_manager_def DEFAULT_COMPRESSION_TYPE_def)
  have hi: "ascii_encode ''hi'' \<noteq> []" by (simp add: ascii_encode_def)
  have pass: "decode_steps cpython_sample passthrough_manager (quoted ''aGk='') (False, True)
                 = Inr ''hi''"
    using hi
    by (simp add: decode_steps_def cpython_sample_fields sample_b64decode_values
        decompress_string_def decompress_bytes_def ascii_decode_hi passthrough_manager_def)
  have a: "attempts passthrough_manager
             = [(False, True), (False, True), (False, False), (False, False)]"
    by (simp add: attempts_def passthrough_manager_def new_manager_def ENABLE_COMPRESSION_def)
  show ?thesis
    by (simp add: unsecure_data_def new_manager_attempts a try_combination_def
        spec_candidate_def sample_steps ne unzip pass cpython_sample_fields
        sample_json_loads_values)
qed

section \<open>The connection manager\<close>

lemma next_outcome_frame:
  "next_outcome w = (r, w1) \<Longrightarrow>
   app_data_table w1 = app_data_table w \<and> security_metadata w1 = security_metadata w
   \<and> files w1 = files w \<and> dirs w1 = dirs w \<and> storage_figures w1 = storage_figures w
   \<and> sleeps w1 = sleeps w"
  by (auto simp: next_outcome_def split: list.splits)

lemma retry_loop_frame:
  "retry_loop xs n d w = (r, w1) \<Longrightarrow>
   app_data_table w1 = app_data_table w \<and> security_metadata w1 = security_metadata w
   \<and> files w1 = files w \<and> dirs w1 = dirs w \<and> storage_figures w1 = storage_figures w"
proof (induction xs arbitrary: w)
  case Nil
  then show ?case by simp
next
  case (Cons a xs)
  obtain o1 w0 where n: "next_outcome w = (o1, w0)" by (cases "next_outcome w")
  note f = next_outcome_frame [OF n]
  show ?case
  proof (cases o1)
    case Connected
    with Cons.prems n f show ?thesis by simp
  next
    case (Raises e)
    show ?thesis
    proof (cases "\<exists>msg. e = OperationalError msg \<and> str_contains ''database is locked'' msg
                    \<and> int a < int n - 1")
      case True
      then obtain msg where "e = OperationalError msg"
        and "str_contains ''database is locked'' msg" and "int a < int n - 1" by blast
      with Cons.prems n Raises
      have "retry_loop xs n d (w0\<lparr>sleeps := sleeps w0 @ [d * 2 ^ a]\<rparr>) = (r, w1)" by simp
      from Cons.IH [OF this] f show ?thesis by simp
    next
      case False
      with Cons.prems n Raises f show ?thesis
        by (cases e) (auto split: if_splits)
    qed
  qed
qed

lemma get_connection_frame:
  "get_connection_with_retry n d w = (r, w1) \<Longrightarrow>
   app_data_table w1 = app_data_table w \<and> security_metadata w1 = security_metadata w
   \<and> files w1 = files w \<and> dirs w1 = dirs w \<and> storage_figures w1 = storage_figures w"
  unfolding get_connection_with_retry_def by (rule retry_loop_frame)

lemma retry_loop_locked:
  assumes "\<forall>x \<in> set locked. str_contains ''database is locked'' x"
    and "coming_attempts w = map (\<lambda>x. Raises (OperationalError x)) locked @ rest"
    and "a + length locked < n"
  shows "retry_loop [a..<n] n d w =
         retry_loop [a + length locked..<n] n d
           (w\<lparr>coming_attempts := rest,
              connects := connects w + length locked,
              sleeps := sleeps w @ map (\<lambda>i. d * 2 ^ i) [a..<a + length locked]\<rparr>)"
  using assms
proof (induction locked arbitrary: w a)
  case Nil
  then have "w\<lparr>coming_attempts := rest\<rparr> = w" by (cases w) simp
  then show ?case by simp
next
  case (Cons x locked)
  from Cons.prems(3) have lt: "a < n" and cond: "int a < int n - 1" by simp_all
  from lt have up: "[a..<n] = a # [Suc a..<n]" by (rule upt_conv_Cons)
  let ?w1 = "w\<lparr>coming_attempts := map (\<lambda>x. Raises (OperationalError x)) locked @ rest,
                 connects := Suc (connects w)\<rparr>"
  let ?w2 = "?w1\<lparr>sleeps := sleeps ?w1 @ [d * 2 ^ a]\<rparr>"
  from Cons.prems(2) have n: "next_outcome w = (Raises (OperationalError x), ?w1)"
    by (simp add: next_outcome_def)
  from Cons.prems(1) have x: "str_contains ''database is locked'' x" by simp
  have step: "retry_loop [a..<n] n d w = retry_loop [Suc a..<n] n d ?w2"
    unfolding up using n x cond by simp
  have ih: "retry_loop [Suc a..<n] n d ?w2 =
        retry_loop [Suc a + length locked..<n] n d
          (?w2\<lparr>coming_attempts := rest,
               connects := connects ?w2 + length locked,
               sleeps := sleeps ?w2 @ map (\<lambda>i. d * 2 ^ i) [Suc a..<Suc a + length locked]\<rparr>)"
    by (rule Cons.IH) (use Cons.prems in simp_all)
  have "a < Suc (a + length locked)" by simp
  from upt_conv_Cons [OF this]
  have up2: "[a..<a + length (x # locked)] = a # [Suc a..<Suc a + length locked]"
    by simp
  show ?case unfolding step ih up2 by simp
qed

lemma five_locked:
  assumes "coming_attempts w = map (\<lambda>x. Raises (OperationalError x)) locked @ rest"
    and "length locked = 5"
    and "\<forall>x \<in> set locked. str_contains ''database is locked'' x"
  shows "get_connection_with_retry 5 100 w =
           (Inl (OperationalError (last locked)),
            w\<lparr>coming_attempts := rest, connects := connects w + 5,
              sleeps := sleeps w @ [100, 200, 400, 800]\<rparr>)"
proof -
  from assms(2) obtain e0 e1 e2 e3 e4 where l: "locked = [e0, e1, e2, e3, e4]"
    by (auto simp: length_Suc_conv eval_nat_numeral)
  have u: "[0..<5] = [0::nat, 1, 2, 3, 4]" by (simp add: upt_rec)
  show ?thesis
    unfolding get_connection_with_retry_def u
    using assms(1,3) by (simp add: l next_outcome_def)
qed

lemma other_error_propagates:
  assumes "coming_attempts w = map (\<lambda>x. Raises (OperationalError x)) locked @ Raises e # rest"
    and "length locked < 5"
    and "\<forall>x \<in> set locked. str_contains ''database is locked'' x"
    and "\<not> (\<exists>x. e = OperationalError x \<and> str_contains ''database is locked'' x)"
  shows "get_connection_with_retry 5 100 w =
           (Inl e,
            w\<lparr>coming_attempts := rest, connects := connects w + length locked + 1,
              sleeps := sleeps w @ map (\<lambda>i. 100 * 2 ^ i) [0..<length locked]\<rparr>)"
proof -
  have "retry_loop [0..<5] 5 100 w =
        retry_loop [0 + length locked..<5] 5 100
          (w\<lparr>coming_attempts := Raises e # rest,
             connects := connects w + length locked,
             sleeps := sleeps w @ map (\<lambda>i. 100 * 2 ^ i) [0..<0 + length locked]\<rparr>)"
    by (rule retry_loop_locked [OF assms(3) assms(1)]) (use assms(2) in simp)
  moreover have "[length locked..<5] = length locked # [Suc (length locked)..<5]"
    by (rule upt_conv_Cons) (use assms(2) in simp)
  ultimately show ?thesis
    using assms(4)
    by (cases e) (simp_all add: get_connection_with_retry_def next_outcome_def)
qed

text \<open>
  C6. When each of the first five acquisition passes raises an \<^verbatim>\<open>OperationalError\<close> whose
  message contains \<^verbatim>\<open>database is locked\<close>, \<^verbatim>\<open>_get_connection_with_retry\<close> with its
  default arguments makes exactly five passes, sleeps 100, 200, 400 and 800 milliseconds
  between them (\<^verbatim>\<open>retry_delay * 2 ** attempt\<close> with \<^verbatim>\<open>retry_delay = 0.1\<close> seconds), and
  raises the error of the fifth pass. When a pass raises anything else, after fewer than five
  locked passes, that error is raised at once: no sleep follows it and no further pass is
  made.
\<close>

theorem lock_contention_retry_bound:
  "(coming_attempts w = map (\<lambda>x. Raises (OperationalError x)) locked @ rest
      \<and> length locked = 5
      \<and> (\<forall>x \<in> set locked. str_contains ''database is locked'' x)
    \<longrightarrow> get_connection_with_retry 5 100 w =
          (Inl (OperationalError (last locked)),
           w\<lparr>coming_attempts := rest, connects := connects w + 5,
             sleeps := sleeps w @ [100, 200, 400, 800]\<rparr>))
   \<and> (coming_attempts w = map (\<lambda>x. Raises (OperationalError x)) locked @ Raises e # rest
      \<and> length locked < 5
      \<and> (\<forall>x \<in> set locked. str_contains ''database is locked'' x)
      \<and> \<not> (\<exists>x. e = OperationalError x \<and> str_contains ''database is locked'' x)
    \<longrightarrow> get_connection_with_retry 5 100 w =
          (Inl e,
           w\<lparr>coming_attempts := rest, connects := connects w + length locked + 1,
             sleeps := sleeps w @ map (\<lambda>i. 100 * 2 ^ i) [0..<length locked]\<rparr>))"
  using five_locked other_error_propagates by blast


lemma busy_locked: "str_contains ''database is locked'' ''database is locked''"
  by simp

theorem lock_contention_retry_bound_witness:
  "get_connection_with_retry 5 100
     (empty_world\<lparr>coming_attempts := [busy, busy, busy, busy, busy, busy]\<rparr>) =
     (Inl (OperationalError ''database is locked''),
      empty_world\<lparr>coming_attempts := [busy], connects := 5, sleeps := [100, 200, 400, 800]\<rparr>)
   \<and> get_connection_with_retry 5 100
     (empty_world\<lparr>coming_attempts := [busy, Raises (OperationalError ''disk I/O error'')]\<rparr>) =
     (Inl (OperationalError ''disk I/O error''),
      empty_world\<lparr>coming_attempts := [], connects := 2, sleeps := [100]\<rparr>)"
proof -
  let ?m = "''database is locked''"
  have a: "get_connection_with_retry 5 100
     (empty_world\<lparr>coming_attempts := [busy, busy, busy, busy, busy, busy]\<rparr>) =
     (Inl (OperationalError ''database is locked''),
      empty_world\<lparr>coming_attempts := [busy], connects := 5, sleeps := [100, 200, 400, 800]\<rparr>)"
    using lock_contention_retry_bound
      [of "empty_world\<lparr>coming_attempts := [busy, busy, busy, busy, busy, busy]\<rparr>"
          "[?m, ?m, ?m, ?m, ?m]" "[busy]"]
    by (simp add: busy_def empty_world_def)
  have b: "get_connection_with_retry 5 100
     (empty_world\<lparr>coming_attempts := [busy, Raises (OperationalError ''disk I/O error'')]\<rparr>) =
     (Inl (OperationalError ''disk I/O error''),
      empty_world\<lparr>coming_attempts := [], connects := 2, sleeps := [100]\<rparr>)"
    using lock_contention_retry_bound
      [of "empty_world\<lparr>coming_attempts := [busy, Raises (OperationalError ''disk I/O error'')]\<rparr>"
          "[?m]" "[]" "OperationalError ''disk I/O error''"]
    by (simp add: busy_def empty_world_def)
  from a b show ?thesis by simp
qed

section \<open>Loading the app data\<close>

lemma dict_set_new_key: "k \<notin> fst ` set d \<Longrightarrow> dict_set d k v = d @ [(k, v)]"
  by (induction d) auto

lemma unsecure_data_returns: "\<exists>v. unsecure_data L m s = Inr v"
  by (simp add: unsecure_data_def split: option.splits sum.splits)

lemma foldl_dict_set_distinct:
  "distinct (map fst rows) \<Longrightarrow> fst ` set rows \<inter> fst ` set acc = {} \<Longrightarrow>
   \<forall>r \<in> set rows. g (snd r) = Inr (f (snd r)) \<Longrightarrow>
   foldl (\<lambda>d r. case g (snd r) of Inl e \<Rightarrow> d | Inr v \<Rightarrow> dict_set d (fst r) v) acc rows
     = acc @ map (\<lambda>r. (fst r, f (snd r))) rows"
proof (induction rows arbitrary: acc)
  case Nil
  then show ?case by simp
next
  case (Cons r rows)
  from Cons.prems have new: "fst r \<notin> fst ` set acc" by auto
  have "fst ` set rows \<inter> fst ` set (acc @ [(fst r, f (snd r))]) = {}"
    using Cons.prems by auto
  with Cons.IH [of "acc @ [(fst r, f (snd r))]"] Cons.prems(1,3)
  show ?case by (simp add: dict_set_new_key [OF new])
qed

text \<open>
  C3, as the code has it. When all four candidates are passed over, \<^verbatim>\<open>_unsecure_data\<close>
  parses the stored string itself, and when that fails too it returns the stored string as
  the value. It returns a value on every input: it never raises. So \<^verbatim>\<open>load_app_data\<close>,
  once it has a connection, returns one entry for every row of the table, in row order, each
  with the key of the row and the value that \<^verbatim>\<open>_unsecure_data\<close> returned for it; no key is
  left out.
\<close>

theorem load_app_data_keeps_every_row:
  assumes "get_connection_with_retry 5 100 w = (Inr conn, w1)"
    and "app_data_table w = Some rows"
    and "distinct (map fst rows)"
  shows "(\<forall>s. \<exists>v. unsecure_data L m s = Inr v)
         \<and> (\<forall>s. s \<noteq> [] \<and> try_attempts L m s (attempts m) = None \<longrightarrow>
               unsecure_data L m s
                 = Inr (case json_loads L s of Inr v \<Rightarrow> v | Inl e \<Rightarrow> PStr s))
         \<and> list_all2 (\<lambda>r entry. fst entry = fst r \<and> unsecure_data L m (snd r) = Inr (snd entry))
              rows (fst (load_app_data L m w))
         \<and> snd (load_app_data L m w) = w1"
proof -
  define f where "f s = (case unsecure_data L m s of Inr v \<Rightarrow> v | Inl e \<Rightarrow> PNone)" for s
  have g: "unsecure_data L m s = Inr (f s)" for s
    using unsecure_data_returns [of L m s] by (auto simp: f_def)
  from get_connection_frame [OF assms(1)] assms(2) have "app_data_table w1 = Some rows"
    by simp
  with assms(1) have "load_app_data L m w =
      (foldl (\<lambda>app_data r. case unsecure_data L m (snd r) of
                              Inl e \<Rightarrow> app_data
                            | Inr v \<Rightarrow> dict_set app_data (fst r) v) [] rows, w1)"
    by (simp add: load_app_data_def)
  moreover have "foldl (\<lambda>app_data r. case unsecure_data L m (snd r) of
                              Inl e \<Rightarrow> app_data
                            | Inr v \<Rightarrow> dict_set app_data (fst r) v) [] rows
      = [] @ map (\<lambda>r. (fst r, f (snd r))) rows"
    by (rule foldl_dict_set_distinct [OF assms(3)]) (simp_all add: g)
  ultimately have l: "load_app_data L m w = (map (\<lambda>r. (fst r, f (snd r))) rows, w1)"
    by simp
  have "list_all2 (\<lambda>r entry. fst entry = fst r \<and> unsecure_data L m (snd r) = Inr (snd entry))
          rows (map (\<lambda>r. (fst r, f (snd r))) rows)"
    by (simp add: list_all2_map2 list_all2_same g)
  with l show ?thesis
    by (simp add: unsecure_data_returns) (simp add: unsecure_data_def split: sum.splits)
qed

lemma connect_at_once:
  "coming_attempts w = [] \<Longrightarrow>
   get_connection_with_retry 5 100 w = (Inr (), w\<lparr>connects := Suc (connects w)\<rparr>)"
proof -
  have u: "[0..<5] = [0::nat, 1, 2, 3, 4]" by (simp add: upt_rec)
  show "coming_attempts w = [] \<Longrightarrow> ?thesis"
    unfolding get_connection_with_retry_def u by (simp add: next_outcome_def)
qed

theorem load_app_data_keeps_every_row_witness:
  "fst (load_app_data cpython_sample new_manager corrupt_world) = [(''handovers'', PStr ''garbage'')]
   \<and> snd (load_app_data cpython_sample new_manager corrupt_world)
       = corrupt_world\<lparr>connects := 1\<rparr>"
proof -
  have c: "get_connection_with_retry 5 100 corrupt_world = (Inr (), corrupt_world\<lparr>connects := 1\<rparr>)"
    using connect_at_once [of corrupt_world] by (simp add: corrupt_world_def empty_world_def)
  have t: "app_data_table corrupt_world = Some [(''handovers'', ''garbage'')]"
    by (simp add: corrupt_world_def)
  have d: "distinct (map fst [(''handovers'', ''garbage'')])" by simp
  from load_app_data_keeps_every_row [OF c t d, of cpython_sample new_manager]
  have "list_all2 (\<lambda>r entry. fst entry = fst r
            \<and> unsecure_data cpython_sample new_manager (snd r) = Inr (snd entry))
          [(''handovers'', ''garbage'')]
          (fst (load_app_data cpython_sample new_manager corrupt_world))"
    and w: "snd (load_app_data cpython_sample new_manager corrupt_world)
              = corrupt_world\<lparr>connects := 1\<rparr>"
    by blast+
  then have "fst (load_app_data cpython_sample new_manager corrupt_world)
               = [(''handovers'', PStr ''garbage'')]"
    by (auto simp: list_all2_Cons1 unsecure_garbage)
  with w show ?thesis by simp
qed

text \<open>
  C3 as stated fails: the payload \<^verbatim>\<open>garbage\<close> is accepted by no candidate in the
  specification's sense and is not JSON, yet decoding it returns a value, the payload as a
  string, and its key is in the loaded map with that value.
\<close>

theorem undecodable_row_is_loaded_as_string:
  "spec_first_success cpython_sample new_manager ''garbage'' (attempts new_manager) = None
   \<and> json_loads cpython_sample ''garbage'' = Inl JSONDecodeError
   \<and> unsecure_data cpython_sample new_manager ''garbage'' = Inr (PStr ''garbage'')
   \<and> fst (load_app_data cpython_sample new_manager corrupt_world)
       = [(''handovers'', PStr ''garbage'')]"
proof -
  have c: "get_connection_with_retry 5 100 corrupt_world = (Inr (), corrupt_world\<lparr>connects := 1\<rparr>)"
    using connect_at_once [of corrupt_world] by (simp add: corrupt_world_def empty_world_def)
  have t: "app_data_table corrupt_world = Some [(''handovers'', ''garbage'')]"
    by (simp add: corrupt_world_def)
  have "fst (load_app_data cpython_sample new_manager corrupt_world)
          = [(''handovers'', PStr ''garbage'')]"
    by (simp add: load_app_data_def c t unsecure_garbage)
  then show ?thesis
    by (simp add: new_manager_attempts spec_candidate_def sample_steps sample_b64decode_values
        cpython_sample_fields sample_json_loads_values unsecure_garbage)
qed

section \<open>Changing the security settings\<close>

text \<open>
  C10. After \<^verbatim>\<open>update_security_settings\<close>, whatever it returns, each of the three toggles
  has the value passed for it, or its previous value when \<^verbatim>\<open>None\<close> was passed; the
  compression type and the compression level are the previous ones; and
  \<^verbatim>\<open>get_current_security_config\<close> shows exactly these values.
\<close>

theorem update_security_settings_changes_only_toggles:
  assumes "update_security_settings L m encryption compression checksums w = (ok, m', w')"
  shows "enable_encryption m' = (case encryption of None \<Rightarrow> enable_encryption m | Some b \<Rightarrow> b)
       \<and> enable_compression m' = (case compression of None \<Rightarrow> enable_compression m | Some b \<Rightarrow> b)
       \<and> enable_checksums m' = (case checksums of None \<Rightarrow> enable_checksums m | Some b \<Rightarrow> b)
       \<and> compression_type m' = compression_type m
       \<and> compression_level m' = compression_level m
       \<and> get_current_security_config m' =
           PDict [(''encryption_enabled'',
                     PBool (case encryption of None \<Rightarrow> enable_encryption m | Some b \<Rightarrow> b)),
                  (''compression_enabled'',
                     PBool (case compression of None \<Rightarrow> enable_compression m | Some b \<Rightarrow> b)),
                  (''checksums_enabled'',
                     PBool (case checksums of None \<Rightarrow> enable_checksums m | Some b \<Rightarrow> b)),
                  (''compression_type'', PStr (compression_type_value (compression_type m)))]"
proof -
  obtain current_data w1 where l: "load_app_data L m w = (current_data, w1)"
    by (cases "load_app_data L m w")
  define m3 where "m3 =
     m\<lparr>enable_encryption := (case encryption of None \<Rightarrow> enable_encryption m | Some b \<Rightarrow> b),
       enable_compression := (case compression of None \<Rightarrow> enable_compression m | Some b \<Rightarrow> b),
       enable_checksums := (case checksums of None \<Rightarrow> enable_checksums m | Some b \<Rightarrow> b)\<rparr>"
  have "m' = m3"
    using assms l unfolding m3_def
    by (cases encryption; cases compression; cases checksums)
       (auto simp: update_security_settings_def Let_def split: if_splits prod.splits)
  then show ?thesis
    by (simp add: m3_def get_current_security_config_def)
qed

lemma load_failing_world:
  "load_app_data cpython_sample m failing_world =
     ([(''theme_mode'', PStr ''light'')],
      failing_world\<lparr>coming_attempts := [Raises (OperationalError ''disk I/O error'')],
                    connects := Suc 0\<rparr>)"
proof -
  have u: "[0..<5] = [0::nat, 1, 2, 3, 4]" by (simp add: upt_rec)
  have c: "get_connection_with_retry 5 100 failing_world =
     (Inr (), failing_world\<lparr>coming_attempts := [Raises (OperationalError ''disk I/O error'')],
                    connects := Suc 0\<rparr>)"
    unfolding get_connection_with_retry_def u
    by (simp add: next_outcome_def failing_world_def empty_world_def)
  have t: "app_data_table failing_world = Some [(''theme_mode'', ''light'')]"
    by (simp add: failing_world_def)
  show ?thesis by (simp add: load_app_data_def c t unsecure_light)
qed

lemma save_after_failing_load:
  "save_app_data cpython_sample m' d
     (failing_world\<lparr>coming_attempts := [Raises (OperationalError ''disk I/O error'')],
                    connects := Suc 0\<rparr>) =
     (False, failing_world\<lparr>coming_attempts := [], connects := Suc (Suc 0)\<rparr>)"
proof -
  have u: "[0..<5] = [0::nat, 1, 2, 3, 4]" by (simp add: upt_rec)
  have c: "get_connection_with_retry 5 100
     (failing_world\<lparr>coming_attempts := [Raises (OperationalError ''disk I/O error'')],
                    connects := Suc 0\<rparr>) =
     (Inl (OperationalError ''disk I/O error''),
      failing_world\<lparr>coming_attempts := [], connects := Suc (Suc 0)\<rparr>)"
    unfolding get_connection_with_retry_def u
    by (simp add: next_outcome_def)
  show ?thesis by (simp add: save_app_data_def c)
qed

theorem update_security_settings_changes_only_toggles_witness:
  "update_security_settings cpython_sample new_manager (Some False) None None failing_world =
     (False, new_manager\<lparr>enable_encryption := False\<rparr>,
      failing_world\<lparr>coming_attempts := [], connects := 2\<rparr>)
   \<and> get_current_security_config (new_manager\<lparr>enable_encryption := False\<rparr>) =
       PDict [(''encryption_enabled'', PBool False),
              (''compression_enabled'', PBool True),
              (''checksums_enabled'', PBool True),
              (''compression_type'', PStr ''gzip'')]"
proof -
  have r: "update_security_settings cpython_sample new_manager (Some False) None None failing_world =
     (False, new_manager\<lparr>enable_encryption := False\<rparr>,
      failing_world\<lparr>coming_attempts := [], connects := 2\<rparr>)"
    using save_after_failing_load [of "new_manager\<lparr>enable_encryption := False\<rparr>"]
    by (simp add: update_security_settings_def load_failing_world eval_nat_numeral)
  from update_security_settings_changes_only_toggles [OF r] r
  show ?thesis
    by (simp add: new_manager_def ENABLE_COMPRESSION_def ENABLE_CHECKSUMS_def
        DEFAULT_COMPRESSION_TYPE_def)
qed

text \<open>
  C4, as the code has it. The toggles are assigned before the data is saved again and
  nothing assigns them back. When the load returned data and saving it again fails,
  \<^verbatim>\<open>update_security_settings\<close> returns \<^verbatim>\<open>False\<close> and the manager holds the new toggles.
\<close>

theorem failed_resave_keeps_new_settings:
  assumes "load_app_data L m w = (current_data, w1)"
    and "current_data \<noteq> []"
    and "m' = m\<lparr>enable_encryption :=
                   (case encryption of None \<Rightarrow> enable_encryption m | Some b \<Rightarrow> b),
                 enable_compression :=
                   (case compression of None \<Rightarrow> enable_compression m | Some b \<Rightarrow> b),
                 enable_checksums :=
                   (case checksums of None \<Rightarrow> enable_checksums m | Some b \<Rightarrow> b)\<rparr>"
    and "save_app_data L m' (PDict current_data) w1 = (False, w2)"
  shows "update_security_settings L m encryption compression checksums w = (False, m', w2)"
  using assms
  by (cases encryption; cases compression; cases checksums)
     (simp_all add: update_security_settings_def Let_def)

theorem failed_resave_keeps_new_settings_witness:
  "update_security_settings cpython_sample new_manager (Some False) (Some False) None failing_world =
     (False, new_manager\<lparr>enable_encryption := False, enable_compression := False\<rparr>,
      failing_world\<lparr>coming_attempts := [], connects := 2\<rparr>)"
proof -
  have m: "new_manager\<lparr>enable_encryption := False, enable_compression := False\<rparr> =
     new_manager\<lparr>enable_encryption :=
                   (case Some False of None \<Rightarrow> enable_encryption new_manager | Some b \<Rightarrow> b),
                 enable_compression :=
                   (case Some False of None \<Rightarrow> enable_compression new_manager | Some b \<Rightarrow> b),
                 enable_checksums :=
                   (case None of None \<Rightarrow> enable_checksums new_manager | Some b \<Rightarrow> b)\<rparr>"
    by simp
  have ne: "[(''theme_mode'', PStr ''light'')] \<noteq> []" by simp
  from failed_resave_keeps_new_settings [OF load_failing_world ne m save_after_failing_load]
  show ?thesis by (simp add: eval_nat_numeral)
qed

text \<open>
  C4 as stated fails: the table holds one section, the connection for the load succeeds and
  the connection for the save raises \<^verbatim>\<open>disk I/O error\<close>. The call returns \<^verbatim>\<open>False\<close> and
  encryption, enabled before the call, is disabled after it.
\<close>

theorem failed_resave_does_not_restore_old_settings:
  "fst (update_security_settings cpython_sample new_manager (Some False) None None failing_world)
     = False
   \<and> enable_encryption
       (fst (snd (update_security_settings cpython_sample new_manager (Some False) None None
                    failing_world))) = False
   \<and> enable_encryption new_manager = True"
  using save_after_failing_load [of "new_manager\<lparr>enable_encryption := False\<rparr>"]
  by (simp add: update_security_settings_def load_failing_world
      new_manager_def ENABLE_ENCRYPTION_def)

section \<open>Restore\<close>

text \<open>
  C5. \<^verbatim>\<open>restore_database\<close> returns \<^verbatim>\<open>False\<close> and leaves the whole state as it was (the
  table, the files, even the connection counter) when the file is missing, when it cannot be
  decrypted, when the decrypted text is not base64 or cannot be decompressed, when the
  manifest cannot be parsed, and when the parsed manifest does not contain \<^verbatim>\<open>app_data\<close> or
  is not a \<^verbatim>\<open>dict\<close>.
  Only a manifest that passed all of these steps reaches \<^verbatim>\<open>save_app_data\<close>, which is the
  one place that writes.
\<close>

theorem failed_restore_leaves_state_unchanged:
  "(map_of (files w) backup_path = None
      \<longrightarrow> restore_database L m backup_path w = (False, w))
   \<and> (map_of (files w) backup_path = Some file_content
        \<and> decrypt_string L file_content = Inl decrypt_error
      \<longrightarrow> restore_database L m backup_path w = (False, w))
   \<and> (map_of (files w) backup_path = Some file_content
        \<and> decrypt_string L file_content = Inr content
        \<and> b64decode L (utf8_encode L content) = Inl decode_error
      \<longrightarrow> restore_database L m backup_path w = (False, w))
   \<and> (map_of (files w) backup_path = Some file_content
        \<and> decrypt_string L file_content = Inr content
        \<and> b64decode L (utf8_encode L content) = Inr compressed_bytes
        \<and> decompress_string L (compression_type m) compressed_bytes = Inl decompress_error
      \<longrightarrow> restore_database L m backup_path w = (False, w))
   \<and> (map_of (files w) backup_path = Some file_content
        \<and> decrypt_string L file_content = Inr content
        \<and> b64decode L (utf8_encode L content) = Inr compressed_bytes
        \<and> decompress_string L (compression_type m) compressed_bytes = Inr json_content
        \<and> json_loads L json_content = Inl parse_error
      \<longrightarrow> restore_database L m backup_path w = (False, w))
   \<and> (map_of (files w) backup_path = Some file_content
        \<and> decrypt_string L file_content = Inr content
        \<and> b64decode L (utf8_encode L content) = Inr compressed_bytes
        \<and> decompress_string L (compression_type m) compressed_bytes = Inr json_content
        \<and> json_loads L json_content = Inr backup_data
        \<and> contains_app_data backup_data \<noteq> Inr True
      \<longrightarrow> restore_database L m backup_path w = (False, w))
   \<and> (map_of (files w) backup_path = Some file_content
        \<and> decrypt_string L file_content = Inr content
        \<and> b64decode L (utf8_encode L content) = Inr compressed_bytes
        \<and> decompress_string L (compression_type m) compressed_bytes = Inr json_content
        \<and> json_loads L json_content = Inr backup_data
        \<and> (\<forall>kvs. backup_data \<noteq> PDict kvs)
      \<longrightarrow> restore_database L m backup_path w = (False, w))
   \<and> (map_of (files w) backup_path = Some file_content
        \<and> decrypt_string L file_content = Inr content
        \<and> b64decode L (utf8_encode L content) = Inr compressed_bytes
        \<and> decompress_string L (compression_type m) compressed_bytes = Inr json_content
        \<and> json_loads L json_content = Inr (PDict kvs)
        \<and> map_of kvs ''app_data'' = Some app_data
      \<longrightarrow> restore_database L m backup_path w = save_app_data L m app_data w)"
proof -
  have in_keys: "map_of kvs ''app_data'' = Some app_data \<Longrightarrow> ''app_data'' \<in> fst ` set kvs"
    by (metis domI dom_map_of_conv_image_fst)
  have not_dict: "\<forall>kvs. d \<noteq> PDict kvs \<Longrightarrow> get_app_data d = Inl TypeError" for d
    by (cases d) simp_all
  show ?thesis
    by (auto simp: restore_database_def read_backup_def BACKUP_ENCRYPTION_def
        BACKUP_COMPRESSION_def in_keys not_dict split: sum.splits)
qed


lemma toy_file_steps:
  "decrypt_string toy_lib (toy_file j) = Inr (map char_of_byte (31 # map byte_of_char j))"
  "b64decode toy_lib (utf8_encode toy_lib (map char_of_byte (31 # map byte_of_char j)))
     = Inr (31 # map byte_of_char j)"
  "decompress_string toy_lib GZIP (31 # map byte_of_char j) = Inr j"
  by (simp_all add: decrypt_string_def decompress_string_def decompress_bytes_def
      as_value_error_def toy_file_def toy_lib_def byte_char char_byte_comp)

theorem failed_restore_leaves_state_unchanged_witness:
  "restore_database cpython_sample new_manager ''backups/missing.bms'' empty_world
     = (False, empty_world)
   \<and> restore_database cpython_sample new_manager ''b.bms''
       (empty_world\<lparr>files := [(''b.bms'', ''garbage'')]\<rparr>)
     = (False, empty_world\<lparr>files := [(''b.bms'', ''garbage'')]\<rparr>)
   \<and> restore_database toy_lib new_manager ''b.bms''
       (empty_world\<lparr>files := [(''b.bms'', toy_file ''garbage'')]\<rparr>)
     = (False, empty_world\<lparr>files := [(''b.bms'', toy_file ''garbage'')]\<rparr>)
   \<and> restore_database toy_lib new_manager ''b.bms''
       (empty_world\<lparr>files := [(''b.bms'', toy_file ''{}'')]\<rparr>)
     = (False, empty_world\<lparr>files := [(''b.bms'', toy_file ''{}'')]\<rparr>)"
proof -
  have g: "compression_type new_manager = GZIP"
    by (simp add: new_manager_def DEFAULT_COMPRESSION_TYPE_def)
  note restore_rule = failed_restore_leaves_state_unchanged
  have a: "restore_database cpython_sample new_manager ''backups/missing.bms'' empty_world
     = (False, empty_world)"
  proof -
    have "map_of (files empty_world) ''backups/missing.bms'' = None"
      by (simp add: empty_world_def)
    with restore_rule [where w = empty_world and backup_path = "''backups/missing.bms''"
                and L = cpython_sample and m = new_manager]
    show ?thesis by blast
  qed
  let ?w = "\<lambda>f. empty_world\<lparr>files := [(''b.bms'', f)]\<rparr>"
  have b: "restore_database cpython_sample new_manager ''b.bms'' (?w ''garbage'')
     = (False, ?w ''garbage'')"
  proof -
    have "map_of (files (?w ''garbage'')) ''b.bms'' = Some ''garbage''
          \<and> decrypt_string cpython_sample ''garbage'' = Inl ValueError"
      by (simp add: sample_decrypt_fails)
    with restore_rule [where w = "?w ''garbage''" and backup_path = "''b.bms''"
                and L = cpython_sample and m = new_manager and file_content = "''garbage''"
                and decrypt_error = ValueError]
    show ?thesis by blast
  qed
  have look: "map_of (files (?w f)) ''b.bms'' = Some f" for f
    by simp
  have unzip: "decompress_string toy_lib (compression_type new_manager)
                 (31 # map byte_of_char j) = Inr j" for j
    unfolding g by (rule toy_file_steps(3))
  have c: "restore_database toy_lib new_manager ''b.bms'' (?w (toy_file ''garbage''))
     = (False, ?w (toy_file ''garbage''))"
  proof -
    have "json_loads toy_lib ''garbage'' = Inl JSONDecodeError"
      by (simp add: toy_lib_def sample_json_loads_def quoted_def)
    with restore_rule [where w = "?w (toy_file ''garbage'')" and backup_path = "''b.bms''"
                and L = toy_lib and m = new_manager and file_content = "toy_file ''garbage''"
                and content = "map char_of_byte (31 # map byte_of_char ''garbage'')"
                and compressed_bytes = "31 # map byte_of_char ''garbage''"
                and json_content = "''garbage''" and parse_error = JSONDecodeError]
      look [of "toy_file ''garbage''"] toy_file_steps(1,2) [of "''garbage''"]
      unzip [of "''garbage''"]
    show ?thesis by blast
  qed
  have d: "restore_database toy_lib new_manager ''b.bms'' (?w (toy_file ''{}''))
     = (False, ?w (toy_file ''{}''))"
  proof -
    have "json_loads toy_lib ''{}'' = Inr (PDict [])"
      by (simp add: toy_lib_def sample_json_loads_def)
    moreover have "contains_app_data (PDict []) \<noteq> Inr True" by simp
    ultimately show ?thesis
      using restore_rule [where w = "?w (toy_file ''{}'')" and backup_path = "''b.bms''"
                and L = toy_lib and m = new_manager and file_content = "toy_file ''{}''"
                and content = "map char_of_byte (31 # map byte_of_char ''{}'')"
                and compressed_bytes = "31 # map byte_of_char ''{}''"
                and json_content = "''{}''" and backup_data = "PDict []"]
        look [of "toy_file ''{}''"] toy_file_steps(1,2) [of "''{}''"] unzip [of "''{}''"]
      by blast
  qed
  from a b c d show ?thesis by simp
qed

section \<open>Backup\<close>







end
